theory Spec2Isabelle
  imports Main "HOL-Library.Char_ord" "HOL-Library.List_Lexorder" "HOL-Library.Multiset"
begin

section \<open>Python values, exceptions and JSON text\<close>

text \<open>
  The two notebooks are glue code over pandas, scikit-learn, the json module and the
  Azure ML SDK. The embedding keeps the notebooks' own control flow (the try/except
  blocks, the sequence of drops, the loops, the slicing and indexing, the request
  construction) and takes the library calls whose results the notebooks cannot
  determine (\<open>model.predict\<close>, \<open>ComputeTarget\<close>, \<open>ComputeTarget.create\<close>,
  \<open>wait_for_completion\<close>, \<open>get_token\<close>) as parameters that either return a value or
  raise.
\<close>

subsection \<open>Exceptions\<close>

text \<open>
  A raised exception is its class and the text \<open>str(e)\<close>. The classes are the ones the
  notebooks name (\<open>ComputeTargetException\<close>, \<open>Exception\<close>), the ones the modelled
  library calls raise, any further class below \<open>Exception\<close> (\<open>OtherException\<close>, with
  its name), and the three built-in classes that derive from \<open>BaseException\<close> but not
  from \<open>Exception\<close>. The constructor \<open>Exception\<close> is the class \<open>Exception\<close> itself, for
  an exception raised as \<open>raise Exception(...)\<close>.
\<close>

datatype exc_class =
    Exception
  | ComputeTargetException
  | KeyError
  | IndexError
  | NameError
  | ValueError
  | OtherException string
  | KeyboardInterrupt
  | SystemExit
  | GeneratorExit

datatype pyexc = Raised (exc_cls: exc_class) (str: string)

text \<open>\<open>isinstance(e, Exception)\<close>: what a handler \<open>except Exception\<close> matches.\<close>

fun is_Exception :: "exc_class \<Rightarrow> bool" where
  "is_Exception KeyboardInterrupt = False"
| "is_Exception SystemExit = False"
| "is_Exception GeneratorExit = False"
| "is_Exception c = True"

text \<open>
  \<open>isinstance(e, ComputeTargetException)\<close>: what a handler
  \<open>except ComputeTargetException\<close> matches.
\<close>

fun is_ComputeTargetException :: "exc_class \<Rightarrow> bool" where
  "is_ComputeTargetException ComputeTargetException = True"
| "is_ComputeTargetException c = False"

type_synonym 'a result = "pyexc + 'a"

subsection \<open>Python values that JSON can carry\<close>

text \<open>
  \<open>None\<close>, \<open>bool\<close>, \<open>int\<close>, \<open>str\<close>, \<open>list\<close> and \<open>dict\<close> with string keys. A dict is
  an association list in insertion order. A \<open>str\<close> is a list of characters with code
  points below 256.
\<close>

datatype pyval =
    PyNone
  | PyBool bool
  | PyInt int
  | PyStr string
  | PyList "pyval list"
  | PyDict "(string \<times> pyval) list"

fun dict_keys :: "pyval \<Rightarrow> string list" where
  "dict_keys (PyDict kvs) = map fst kvs"
| "dict_keys v = []"

subsection \<open>\<open>json.dumps\<close>\<close>

definition hex_digit :: "nat \<Rightarrow> char" where
  "hex_digit n = (let d = n mod 16 in char_of (if d < 10 then 48 + d else 87 + d))"

definition dec_digit :: "nat \<Rightarrow> char" where
  "dec_digit n = char_of (48 + n mod 10)"

fun dec_nat :: "nat \<Rightarrow> string" where
  "dec_nat n = (if n < 10 then [dec_digit n] else dec_nat (n div 10) @ [dec_digit n])"

declare dec_nat.simps [simp del]

text \<open>\<open>str(n)\<close> of a Python int.\<close>

definition dec_int :: "int \<Rightarrow> string" where
  "dec_int i = (if i < 0 then CHR ''-'' # dec_nat (nat (- i)) else dec_nat (nat i))"

text \<open>
  The escape of one character by \<open>json.dumps\<close> (\<open>ensure_ascii=True\<close>): the quote and
  the backslash get a backslash, the five named control characters their letter, and
  every other character outside \<open>' '..'~'\<close> the form \<open>\u00xx\<close>.
\<close>

definition escape_char :: "char \<Rightarrow> string" where
  "escape_char c =
     (if c = CHR 0x22 then [CHR 0x5C, CHR 0x22]
      else if c = CHR 0x5C then [CHR 0x5C, CHR 0x5C]
      else if c = CHR 0x0A then [CHR 0x5C, CHR ''n'']
      else if c = CHR 0x0D then [CHR 0x5C, CHR ''r'']
      else if c = CHR 0x09 then [CHR 0x5C, CHR ''t'']
      else if c = CHR 0x08 then [CHR 0x5C, CHR ''b'']
      else if c = CHR 0x0C then [CHR 0x5C, CHR ''f'']
      else if (of_char c :: nat) < 0x20 \<or> 0x7E < (of_char c :: nat)
      then [CHR 0x5C, CHR ''u'', CHR ''0'', CHR ''0'',
            hex_digit ((of_char c :: nat) div 16), hex_digit (of_char c)]
      else [c])"

text \<open>Items joined by a separator, as \<open>sep.join(items)\<close>.\<close>

fun join :: "string \<Rightarrow> string list \<Rightarrow> string" where
  "join sep [] = []"
| "join sep [x] = x"
| "join sep (x # y # ys) = x @ sep @ join sep (y # ys)"

text \<open>
  The encoder, for an escape of characters, the separator of items and the separator
  between a key and its value.
\<close>

definition quoted :: "(char \<Rightarrow> string) \<Rightarrow> string \<Rightarrow> string" where
  "quoted esc s = CHR 0x22 # concat (map esc s) @ [CHR 0x22]"

primrec encode :: "(char \<Rightarrow> string) \<Rightarrow> string \<Rightarrow> string \<Rightarrow> pyval \<Rightarrow> string" where
  "encode esc item_sep key_sep PyNone = ''null''"
| "encode esc item_sep key_sep (PyBool b) = (if b then ''true'' else ''false'')"
| "encode esc item_sep key_sep (PyInt i) = dec_int i"
| "encode esc item_sep key_sep (PyStr s) = quoted esc s"
| "encode esc item_sep key_sep (PyList xs) =
     ''['' @ join item_sep (map (encode esc item_sep key_sep) xs) @ '']''"
| "encode esc item_sep key_sep (PyDict kvs) =
     ''{'' @ join item_sep
        (map (\<lambda>(k, s). quoted esc k @ key_sep @ s)
           (map (map_prod id (encode esc item_sep key_sep)) kvs))
      @ ''}''"

text \<open>
  \<open>json.dumps(v)\<close> with the default separators \<open>', '\<close> and \<open>': '\<close>, which is how both
  notebooks call it.
\<close>

definition json_dumps :: "pyval \<Rightarrow> string" where
  "json_dumps v = encode escape_char '', '' '': '' v"

section \<open>The scoring script \<open>score.py\<close>\<close>

text \<open>
  \<^verbatim>\<open>
  @input_schema('data', PandasParameterType(input_sample))
  @output_schema(NumpyParameterType(output_sample))
  def run(data):
      try:
          result = model.predict(data)
          return json.dumps({"result": result.tolist()})
      except Exception as e:
          result = str(e)
          return json.dumps({"error": result})
  \<close>
  \<open>model\<close> is the global that \<open>init()\<close> binds; before \<open>init()\<close> it is unbound and
  reading it raises \<open>NameError\<close> inside the \<open>try\<close>. \<open>model.predict\<close> is the fitted
  pipeline: a parameter that returns the array of predicted labels (integers, as
  \<open>output_sample = np.array([0])\<close> declares) or raises. \<open>result.tolist()\<close> turns the
  array into a list of Python ints.
\<close>

definition tolist :: "int list \<Rightarrow> pyval" where
  "tolist result = PyList (map PyInt result)"

definition model_predict :: "('d \<Rightarrow> int list result) option \<Rightarrow> 'd \<Rightarrow> int list result" where
  "model_predict model data =
     (case model of
        None \<Rightarrow> Inl (Raised NameError ''name 'model' is not defined'')
      | Some m \<Rightarrow> m data)"

text \<open>
  The function that the \<open>def\<close> statement builds, before the decorators are applied to it:
  the \<open>try\<close> statement with its one handler.
\<close>

definition run_body :: "('d \<Rightarrow> int list result) option \<Rightarrow> 'd \<Rightarrow> pyval result" where
  "run_body model data =
     (case model_predict model data of
        Inr result \<Rightarrow> Inr (PyStr (json_dumps (PyDict [(''result'', tolist result)])))
      | Inl e \<Rightarrow>
          if is_Exception (exc_cls e)
          then Inr (PyStr (json_dumps (PyDict [(''error'', PyStr (str e))])))
          else Inl e)"

text \<open>
  The two decorators of the \<open>inference_schema\<close> package. \<open>@output_schema\<close> wraps the
  function in one that calls it and returns what it returns. \<open>@input_schema\<close> wraps the
  function in one that first converts the argument \<open>data\<close> to the type of the sample, a
  \<open>DataFrame\<close>, and then calls the function with the converted argument. The conversion
  is the parameter \<open>deserialize\<close>: it returns the table or raises (the package raises an
  \<open>Exception\<close> for an argument it cannot convert). It runs before the \<open>try\<close> statement is
  entered, so what it raises is raised by the call.
\<close>

definition output_schema :: "('d \<Rightarrow> pyval result) \<Rightarrow> 'd \<Rightarrow> pyval result" where
  "output_schema user_run data = user_run data"

definition input_schema :: "('raw \<Rightarrow> 'd result) \<Rightarrow> ('d \<Rightarrow> pyval result) \<Rightarrow> 'raw \<Rightarrow> pyval result" where
  "input_schema deserialize user_run raw =
     (case deserialize raw of
        Inl e \<Rightarrow> Inl e
      | Inr data \<Rightarrow> user_run data)"

text \<open>What the name \<open>run\<close> is bound to: the function under its two decorators.\<close>

definition run :: "('raw \<Rightarrow> 'd result) \<Rightarrow> ('d \<Rightarrow> int list result) option \<Rightarrow> 'raw \<Rightarrow> pyval result" where
  "run deserialize model = input_schema deserialize (output_schema (run_body model))"

text \<open>Fitted models for the examples: one that predicts the given labels, one that raises.\<close>

definition predicts :: "int list \<Rightarrow> 'd \<Rightarrow> int list result" where
  "predicts predicted data = Inr predicted"

definition raises :: "pyexc \<Rightarrow> 'd \<Rightarrow> int list result" where
  "raises e data = Inl e"

text \<open>
  Conversions for the examples: one that yields the given table for every argument, and
  one that rejects every argument with the given exception. \<open>schema_error\<close> is an
  exception of the class \<open>Exception\<close>, as the conversion raises it; its text stands for
  the message of the package.
\<close>

definition converts_to :: "'d \<Rightarrow> 'raw \<Rightarrow> 'd result" where
  "converts_to data raw = Inr data"

definition cannot_convert :: "pyexc \<Rightarrow> 'raw \<Rightarrow> 'd result" where
  "cannot_convert e raw = Inl e"

definition schema_error :: pyexc where
  "schema_error = Raised Exception ''Error, unable to convert input into Pandas Dataframe''"

section \<open>Tables\<close>

text \<open>
  A pandas \<open>DataFrame\<close>: the row labels (\<open>index\<close>) and the columns in their order, each
  a label with its \<open>Series\<close> (the dtype and the cells, one per row, in row order). pandas
  allows two columns to carry the same label, so the columns are a list of pairs and not
  a map.
\<close>

datatype cell = IntCell int | StrCell string | NullCell

datatype dtype = Object | Int64 | Float64 | Bool | OtherDtype string

record series =
  dtype :: dtype
  cells :: "cell list"

record dataframe =
  index :: "int list"
  columns :: "(string \<times> series) list"

definition labels :: "dataframe \<Rightarrow> string list" where
  "labels df = map fst (columns df)"

text \<open>Sequencing of calls that may raise: the first exception ends the cell.\<close>

definition and_then :: "'a result \<Rightarrow> ('a \<Rightarrow> 'b result) \<Rightarrow> 'b result" where
  "and_then r f = (case r of Inl e \<Rightarrow> Inl e | Inr x \<Rightarrow> f x)"

text \<open>
  \<open>df.drop([label], axis=1)\<close>, the one shape in which the notebook calls \<open>drop\<close>: a new
  table without the columns that carry the label (every column that carries it);
  \<open>KeyError\<close> when no column carries it. The index and the other columns are taken over
  as they are.
\<close>

definition DataFrame_drop :: "string \<Rightarrow> dataframe \<Rightarrow> dataframe result" where
  "DataFrame_drop l df =
     (if l \<in> set (labels df)
      then Inr (df\<lparr>columns := filter (\<lambda>(c, s). c \<noteq> l) (columns df)\<rparr>)
      else Inl (Raised KeyError
             ([CHR 0x22, CHR ''['', CHR 0x27] @ l @ [CHR 0x27, CHR '']''] @
              '' not found in axis'' @ [CHR 0x22])))"

text \<open>
  \<open>df[label]\<close>: the columns that carry the label (a \<open>Series\<close> when there is one, a
  \<open>DataFrame\<close> of them when the label is repeated); \<open>KeyError\<close> when there is none.
\<close>

definition DataFrame_getitem :: "dataframe \<Rightarrow> string \<Rightarrow> series list result" where
  "DataFrame_getitem df l =
     (case map snd (filter (\<lambda>(c, s). c = l) (columns df)) of
        [] \<Rightarrow> Inl (Raised KeyError ([CHR 0x27] @ l @ [CHR 0x27]))
      | found \<Rightarrow> Inr found)"

subsection \<open>The explanation notebook: dropping the non-informative columns\<close>

text \<open>
  \<^verbatim>\<open>
  attritionData = attritionData.drop(['EmployeeCount'], axis=1)
  attritionData = attritionData.drop(['EmployeeNumber'], axis=1)
  attritionData = attritionData.drop(['Over18'], axis=1)
  attritionData = attritionData.drop(['StandardHours'], axis=1)
  target = attritionData["Attrition"]
  attritionXData = attritionData.drop(['Attrition'], axis=1)
  \<close>
\<close>

definition attritionData_drops :: "dataframe \<Rightarrow> dataframe result" where
  "attritionData_drops attritionData =
     and_then (DataFrame_drop ''EmployeeCount'' attritionData) (\<lambda>d1.
     and_then (DataFrame_drop ''EmployeeNumber'' d1) (\<lambda>d2.
     and_then (DataFrame_drop ''Over18'' d2) (\<lambda>d3.
     DataFrame_drop ''StandardHours'' d3)))"

definition target_and_attritionXData :: "dataframe \<Rightarrow> (series list \<times> dataframe) result" where
  "target_and_attritionXData attritionData =
     and_then (attritionData_drops attritionData) (\<lambda>d.
     and_then (DataFrame_getitem d ''Attrition'') (\<lambda>target.
     and_then (DataFrame_drop ''Attrition'' d) (\<lambda>attritionXData.
     Inr (target, attritionXData))))"

text \<open>The four labels the cell drops before it takes the target.\<close>

definition dropped_labels :: "string list" where
  "dropped_labels = [''EmployeeCount'', ''EmployeeNumber'', ''Over18'', ''StandardHours'']"

subsection \<open>The explanation notebook: categorical and numerical columns\<close>

text \<open>
  \<^verbatim>\<open>
  categorical = []
  for col, value in attritionXData.iteritems():
      if value.dtype == 'object':
          categorical.append(col)

  numerical = attritionXData.columns.difference(categorical)
  \<close>
  \<open>iteritems\<close> yields the columns in their order, one pair per column. The loop is the
  recursion \<open>categorical_loop\<close> over them, with the list built so far.
\<close>

fun categorical_loop :: "(string \<times> series) list \<Rightarrow> string list \<Rightarrow> string list" where
  "categorical_loop [] categorical = categorical"
| "categorical_loop ((col, v) # rest) categorical =
     categorical_loop rest (if dtype v = Object then categorical @ [col] else categorical)"

definition categorical :: "dataframe \<Rightarrow> string list" where
  "categorical attritionXData = categorical_loop (columns attritionXData) []"

text \<open>
  \<open>Index.difference(other)\<close> (with the default \<open>sort=None\<close>). When \<open>other\<close> is empty the
  index is returned as it is, neither sorted nor freed of repeated labels. Otherwise the
  result holds the labels of the index that are not in \<open>other\<close>, each once, sorted.
  Labels are strings, which Python compares by code points, shorter prefix first: the
  lexicographic order on \<open>char list\<close>.
\<close>

definition Index_difference :: "string list \<Rightarrow> string list \<Rightarrow> string list" where
  "Index_difference self other =
     (if other = [] then self
      else sort (remdups (filter (\<lambda>c. c \<notin> set other) self)))"

definition numerical :: "dataframe \<Rightarrow> string list" where
  "numerical attritionXData = Index_difference (labels attritionXData) (categorical attritionXData)"

subsection \<open>The explanation notebook: the local explanation\<close>

text \<open>
  \<^verbatim>\<open>
  instance_num = 1
  local_explanation = explainer.explain_local(x_test[:instance_num])
  prediction_value = clf.predict(x_test)[instance_num]
  \<close>
  \<open>x_test[:n]\<close> slices the rows by position. A row is its index label with its cells,
  column by column. \<open>clf.predict\<close> returns one label per row, in row order: the fitted
  pipeline decides each row on its own, and this decision is the parameter \<open>classify\<close>.
  Indexing the array of predictions beyond its end raises \<open>IndexError\<close>.
\<close>

type_synonym row = "int \<times> (string \<times> cell) list"

definition row_at :: "dataframe \<Rightarrow> nat \<Rightarrow> row" where
  "row_at df i = (index df ! i, map (\<lambda>(c, s). (c, cells s ! i)) (columns df))"

definition rows :: "dataframe \<Rightarrow> row list" where
  "rows df = map (row_at df) [0..<length (index df)]"

definition head_rows :: "nat \<Rightarrow> dataframe \<Rightarrow> dataframe" where
  "head_rows n df =
     df\<lparr>index := take n (index df),
        columns := map (\<lambda>(c, s). (c, s\<lparr>cells := take n (cells s)\<rparr>)) (columns df)\<rparr>"

definition clf_predict :: "(row \<Rightarrow> int) \<Rightarrow> dataframe \<Rightarrow> int list" where
  "clf_predict classify df = map classify (rows df)"

definition array_getitem :: "'a list \<Rightarrow> nat \<Rightarrow> 'a result" where
  "array_getitem a i =
     (if i < length a then Inr (a ! i)
      else Inl (Raised IndexError
        (''index '' @ dec_nat i @ '' is out of bounds for axis 0 with size '' @ dec_nat (length a))))"

definition instance_num :: nat where
  "instance_num = 1"

definition explained_rows :: "dataframe \<Rightarrow> dataframe" where
  "explained_rows x_test = head_rows instance_num x_test"

definition prediction_value :: "(row \<Rightarrow> int) \<Rightarrow> dataframe \<Rightarrow> int result" where
  "prediction_value classify x_test = array_getitem (clf_predict classify x_test) instance_num"

section \<open>JSON text of tables and its parsing\<close>

subsection \<open>\<open>json.loads\<close>\<close>

text \<open>
  The decoder of the json module, for the values of \<open>pyval\<close>: whitespace is blank, tab,
  line feed and carriage return; a number is \<open>-?(0|[1-9][0-9]*)\<close>; a string may not
  hold a raw control character; the pairs of an object become a dict, so a repeated key
  keeps its first place and its last value; text after the value is an error
  (\<open>JSONDecodeError\<close> is a \<open>ValueError\<close>; the position its message carries is left
  out). A number with a fraction or an exponent is a
  float and an escape \<open>\uXXXX\<close> above \<open>00ff\<close> is a character that \<open>pyval\<close> does not
  carry: the model refuses both. The recursion over nested values runs on fuel, two
  units per character of the text and two more; that this is enough for every text the
  encoders below write is part of what is proved about them.
\<close>

definition is_ws :: "char \<Rightarrow> bool" where
  "is_ws c = (c = CHR '' '' \<or> c = CHR 0x09 \<or> c = CHR 0x0A \<or> c = CHR 0x0D)"

definition skip_ws :: "string \<Rightarrow> string" where
  "skip_ws s = dropWhile is_ws s"

definition is_digit :: "char \<Rightarrow> bool" where
  "is_digit c = (48 \<le> (of_char c :: nat) \<and> (of_char c :: nat) \<le> 57)"

definition digits_val :: "string \<Rightarrow> nat" where
  "digits_val ds = foldl (\<lambda>a c. 10 * a + ((of_char c :: nat) - 48)) 0 ds"

definition hex_val :: "char \<Rightarrow> nat option" where
  "hex_val c =
     (let n = (of_char c :: nat) in
      if 48 \<le> n \<and> n \<le> 57 then Some (n - 48)
      else if 97 \<le> n \<and> n \<le> 102 then Some (n - 87)
      else if 65 \<le> n \<and> n \<le> 70 then Some (n - 55)
      else None)"

definition unescape :: "char \<Rightarrow> char option" where
  "unescape e =
     (if e = CHR 0x22 then Some (CHR 0x22)
      else if e = CHR 0x5C then Some (CHR 0x5C)
      else if e = CHR ''/'' then Some (CHR ''/'')
      else if e = CHR ''b'' then Some (CHR 0x08)
      else if e = CHR ''f'' then Some (CHR 0x0C)
      else if e = CHR ''n'' then Some (CHR 0x0A)
      else if e = CHR ''r'' then Some (CHR 0x0D)
      else if e = CHR ''t'' then Some (CHR 0x09)
      else None)"

definition cons_char :: "char \<Rightarrow> (string \<times> string) option \<Rightarrow> (string \<times> string) option" where
  "cons_char c r = map_option (\<lambda>(t, rest). (c # t, rest)) r"

text \<open>The characters of a string after its opening quote, up to the closing quote.\<close>

fun parse_chars :: "string \<Rightarrow> (string \<times> string) option" where
  "parse_chars [] = None"
| "parse_chars (c # cs) =
     (if c = CHR 0x22 then Some ([], cs)
      else if c = CHR 0x5C then
        (case cs of
           [] \<Rightarrow> None
         | e # r \<Rightarrow>
             if e = CHR ''u'' then
               (case r of
                  h1 # h2 # h3 # h4 # r' \<Rightarrow>
                    (case (hex_val h1, hex_val h2, hex_val h3, hex_val h4) of
                       (Some a, Some b, Some c, Some d) \<Rightarrow>
                         if a = 0 \<and> b = 0 then cons_char (char_of (16 * c + d)) (parse_chars r')
                         else None
                     | _ \<Rightarrow> None)
                | _ \<Rightarrow> None)
             else
               (case unescape e of
                  None \<Rightarrow> None
                | Some x \<Rightarrow> cons_char x (parse_chars r)))
      else if (of_char c :: nat) < 0x20 then None
      else cons_char c (parse_chars cs))"

definition parse_number :: "string \<Rightarrow> (pyval \<times> string) option" where
  "parse_number s =
     (let neg = (s \<noteq> [] \<and> hd s = CHR ''-'');
          r = (if neg then tl s else s);
          ds = (if r \<noteq> [] \<and> hd r = CHR ''0'' then ''0'' else takeWhile is_digit r);
          rest = drop (length ds) r
      in if ds = [] then None
         else if rest \<noteq> [] \<and> (hd rest = CHR ''.'' \<or> hd rest = CHR ''e'' \<or> hd rest = CHR ''E'') then None
         else Some (PyInt (if neg then - int (digits_val ds) else int (digits_val ds)), rest))"

text \<open>\<open>d[k] = v\<close> on a dict, and \<open>dict(pairs)\<close>.\<close>

fun dict_set :: "(string \<times> 'v) list \<Rightarrow> string \<Rightarrow> 'v \<Rightarrow> (string \<times> 'v) list" where
  "dict_set [] k v = [(k, v)]"
| "dict_set ((k', v') # d) k v = (if k' = k then (k', v) # d else (k', v') # dict_set d k v)"

definition dict_of_pairs :: "(string \<times> 'v) list \<Rightarrow> (string \<times> 'v) list" where
  "dict_of_pairs pairs = foldl (\<lambda>d (k, v). dict_set d k v) [] pairs"

fun parse_value :: "nat \<Rightarrow> string \<Rightarrow> (pyval \<times> string) option"
  and parse_array_items :: "nat \<Rightarrow> string \<Rightarrow> (pyval list \<times> string) option"
  and parse_object_pairs :: "nat \<Rightarrow> string \<Rightarrow> ((string \<times> pyval) list \<times> string) option"
where
  "parse_value 0 s = None"
| "parse_value (Suc n) s =
     (case s of
        [] \<Rightarrow> None
      | c # r \<Rightarrow>
          if c = CHR 0x22 then map_option (\<lambda>(t, r'). (PyStr t, r')) (parse_chars r)
          else if c = CHR ''{'' then
            (case skip_ws r of
               [] \<Rightarrow> None
             | d # r' \<Rightarrow>
                 if d = CHR ''}'' then Some (PyDict [], r')
                 else map_option (\<lambda>(kvs, r''). (PyDict (dict_of_pairs kvs), r''))
                        (parse_object_pairs n (d # r')))
          else if c = CHR ''['' then
            (case skip_ws r of
               [] \<Rightarrow> None
             | d # r' \<Rightarrow>
                 if d = CHR '']'' then Some (PyList [], r')
                 else map_option (\<lambda>(vs, r''). (PyList vs, r'')) (parse_array_items n (d # r')))
          else if take 4 s = ''null'' then Some (PyNone, drop 4 s)
          else if take 4 s = ''true'' then Some (PyBool True, drop 4 s)
          else if take 5 s = ''false'' then Some (PyBool False, drop 5 s)
          else parse_number s)"
| "parse_array_items 0 s = None"
| "parse_array_items (Suc n) s =
     (case parse_value n s of
        None \<Rightarrow> None
      | Some (v, r) \<Rightarrow>
          (case skip_ws r of
             [] \<Rightarrow> None
           | c # r' \<Rightarrow>
               if c = CHR '']'' then Some ([v], r')
               else if c = CHR '','' then
                 map_option (\<lambda>(vs, r''). (v # vs, r'')) (parse_array_items n (skip_ws r'))
               else None))"
| "parse_object_pairs 0 s = None"
| "parse_object_pairs (Suc n) s =
     (case s of
        [] \<Rightarrow> None
      | q # r \<Rightarrow>
          if q \<noteq> CHR 0x22 then None
          else
            (case parse_chars r of
               None \<Rightarrow> None
             | Some (k, r1) \<Rightarrow>
                 (case skip_ws r1 of
                    [] \<Rightarrow> None
                  | c # r2 \<Rightarrow>
                      if c \<noteq> CHR '':'' then None
                      else
                        (case parse_value n (skip_ws r2) of
                           None \<Rightarrow> None
                         | Some (v, r3) \<Rightarrow>
                             (case skip_ws r3 of
                                [] \<Rightarrow> None
                              | d # r4 \<Rightarrow>
                                  if d = CHR ''}'' then Some ([(k, v)], r4)
                                  else if d = CHR '','' then
                                    map_option (\<lambda>(kvs, r5). ((k, v) # kvs, r5))
                                      (parse_object_pairs n (skip_ws r4))
                                  else None)))))"

definition json_loads :: "string \<Rightarrow> pyval result" where
  "json_loads s =
     (case parse_value (2 * length s + 2) (skip_ws s) of
        None \<Rightarrow> Inl (Raised ValueError ''Expecting value'')
      | Some (v, r) \<Rightarrow>
          if skip_ws r = [] then Inr v else Inl (Raised ValueError ''Extra data''))"

subsection \<open>\<open>DataFrame.to_json\<close>\<close>

text \<open>
  \<open>pd.DataFrame.to_json(df)\<close> is called with its defaults, so the orientation is
  \<open>'columns'\<close>: an object that maps each column label to an object that maps each row
  label (as a string) to the cell. pandas refuses a table whose column labels or row
  labels repeat (\<open>ValueError\<close>). The text is compact (no blank after \<open>,\<close> and \<open>:\<close>) and
  the encoder also escapes the slash.
\<close>

definition cell_json :: "cell \<Rightarrow> pyval" where
  "cell_json x = (case x of IntCell i \<Rightarrow> PyInt i | StrCell t \<Rightarrow> PyStr t | NullCell \<Rightarrow> PyNone)"

definition columns_dict :: "dataframe \<Rightarrow> pyval" where
  "columns_dict df =
     PyDict (map (\<lambda>(c, s). (c, PyDict (map (\<lambda>(i, x). (dec_int i, cell_json x)) (zip (index df) (cells s)))))
       (columns df))"

definition ujson_escape_char :: "char \<Rightarrow> string" where
  "ujson_escape_char c =
     (if c = CHR 0x22 then [CHR 0x5C, CHR 0x22]
      else if c = CHR 0x5C then [CHR 0x5C, CHR 0x5C]
      else if c = CHR ''/'' then [CHR 0x5C, CHR ''/'']
      else if c = CHR 0x0A then [CHR 0x5C, CHR ''n'']
      else if c = CHR 0x0D then [CHR 0x5C, CHR ''r'']
      else if c = CHR 0x09 then [CHR 0x5C, CHR ''t'']
      else if c = CHR 0x08 then [CHR 0x5C, CHR ''b'']
      else if c = CHR 0x0C then [CHR 0x5C, CHR ''f'']
      else if (of_char c :: nat) < 0x20 \<or> 0x7F < (of_char c :: nat)
      then [CHR 0x5C, CHR ''u'', CHR ''0'', CHR ''0'',
            hex_digit ((of_char c :: nat) div 16), hex_digit (of_char c)]
      else [c])"

definition ujson_dumps :: "pyval \<Rightarrow> string" where
  "ujson_dumps v = encode ujson_escape_char '','' '':'' v"

definition DataFrame_to_json :: "dataframe \<Rightarrow> string result" where
  "DataFrame_to_json df =
     (if \<not> distinct (index df)
      then Inl (Raised ValueError ''DataFrame index must be unique for orient='columns'.'')
      else if \<not> distinct (labels df)
      then Inl (Raised ValueError ''DataFrame columns must be unique for orient='columns'.'')
      else Inr (ujson_dumps (columns_dict df)))"

text \<open>
  \<open>pd.DataFrame(data=[record])\<close> for one record (a dict from column label to value):
  one row, labelled 0, one column per key in the dict's order, a column of strings with
  dtype \<open>object\<close> and a column of ints with dtype \<open>int64\<close>.
\<close>

definition infer_dtype :: "cell \<Rightarrow> dtype" where
  "infer_dtype x = (case x of IntCell i \<Rightarrow> Int64 | StrCell t \<Rightarrow> Object | NullCell \<Rightarrow> Object)"

definition DataFrame_of_record :: "(string \<times> cell) list \<Rightarrow> dataframe" where
  "DataFrame_of_record record_dict =
     \<lparr>index = [0],
      columns = map (\<lambda>(k, x). (k, \<lparr>dtype = infer_dtype x, cells = [x]\<rparr>)) record_dict\<rparr>"

section \<open>The enterprise-readiness notebook: consuming the service\<close>

text \<open>
  \<^verbatim>\<open>
  access_token, refresh_after = aks_service.get_token()

  sample = pd.DataFrame(data=[{'Age': 41, 'BusinessTravel': 'Travel_Rarely', ...}])
  sample = pd.DataFrame.to_json(sample)
  sample = json.loads(sample)
  sample = json.dumps({"data":sample})
  headers = {'Content-Type':'application/json', 'Authorization': 'Bearer ' + access_token}
  resp = requests.post(aks_service.scoring_uri, sample, headers=headers)
  \<close>
  The record is the notebook's literal. \<open>get_token\<close> is the service's call (it returns
  the token and the time to refresh it, or raises), \<open>scoring_uri\<close> the service's
  address. A request is what \<open>requests.post\<close> is given: the method, the address, the
  headers passed and the body.
\<close>

definition sample_record :: "(string \<times> cell) list" where
  "sample_record =
     [(''Age'', IntCell 41), (''BusinessTravel'', StrCell ''Travel_Rarely''),
      (''DailyRate'', IntCell 1102), (''Department'', StrCell ''Sales''),
      (''DistanceFromHome'', IntCell 1), (''Education'', IntCell 2),
      (''EducationField'', StrCell ''Life Sciences''), (''EnvironmentSatisfaction'', IntCell 2),
      (''Gender'', StrCell ''Female''), (''HourlyRate'', IntCell 94),
      (''JobInvolvement'', IntCell 3), (''JobLevel'', IntCell 2),
      (''JobRole'', StrCell ''Sales Executive''), (''JobSatisfaction'', IntCell 4),
      (''MaritalStatus'', StrCell ''Single''), (''MonthlyIncome'', IntCell 5993),
      (''MonthlyRate'', IntCell 19479), (''NumCompaniesWorked'', IntCell 8),
      (''OverTime'', IntCell 0), (''PercentSalaryHike'', IntCell 11),
      (''PerformanceRating'', IntCell 3), (''RelationshipSatisfaction'', IntCell 1),
      (''StockOptionLevel'', IntCell 0), (''TotalWorkingYears'', IntCell 8),
      (''TrainingTimesLastYear'', IntCell 0), (''WorkLifeBalance'', IntCell 1),
      (''YearsAtCompany'', IntCell 6), (''YearsInCurrentRole'', IntCell 4),
      (''YearsSinceLastPromotion'', IntCell 0), (''YearsWithCurrManager'', IntCell 5)]"

definition sample :: dataframe where
  "sample = DataFrame_of_record sample_record"

record http_request =
  http_method :: string
  url :: string
  headers :: "(string \<times> string) list"
  body :: string

definition requests_post :: "string \<Rightarrow> string \<Rightarrow> (string \<times> string) list \<Rightarrow> http_request" where
  "requests_post u d hs = \<lparr>http_method = ''POST'', url = u, headers = hs, body = d\<rparr>"

definition sample_request :: "string \<Rightarrow> string \<Rightarrow> http_request result" where
  "sample_request access_token scoring_uri =
     and_then (DataFrame_to_json sample) (\<lambda>sample1.
     and_then (json_loads sample1) (\<lambda>sample2.
     Inr (requests_post scoring_uri (json_dumps (PyDict [(''data'', sample2)]))
            [(''Content-Type'', ''application/json''),
             (''Authorization'', ''Bearer '' @ access_token)])))"

definition consume_service :: "(string \<times> 't) result \<Rightarrow> string \<Rightarrow> http_request result" where
  "consume_service get_token scoring_uri =
     and_then get_token (\<lambda>(access_token, refresh_after). sample_request access_token scoring_uri)"

text \<open>
  The specification calls the table in the body row-oriented. pandas has two row-wise
  orientations, written here from their documentation for comparison with what the
  notebook sends: \<open>'records'\<close>, a list with one object per row (column label to cell),
  and \<open>'index'\<close>, an object that maps each row label to such an object.
\<close>

definition row_dict :: "dataframe \<Rightarrow> nat \<Rightarrow> pyval" where
  "row_dict df i = PyDict (map (\<lambda>(c, s). (c, cell_json (cells s ! i))) (columns df))"

definition row_oriented_records :: "dataframe \<Rightarrow> pyval" where
  "row_oriented_records df = PyList (map (row_dict df) [0..<length (index df)])"

definition row_oriented_index :: "dataframe \<Rightarrow> pyval" where
  "row_oriented_index df =
     PyDict (map (\<lambda>i. (dec_int (index df ! i), row_dict df i)) [0..<length (index df)])"

section \<open>The enterprise-readiness notebook: provisioning the clusters\<close>

text \<open>
  \<^verbatim>\<open>
  cpu_cluster_name = "vnetcluster"
  try:
      cpu_cluster = ComputeTarget(workspace=ws, name=cpu_cluster_name)
      print("Found existing cluster with name", cpu_cluster_name)
  except ComputeTargetException:
      print("Creating new cluster with name", cpu_cluster_name)
      compute_config = AmlCompute.provisioning_configuration(vm_size="STANDARD_D2_V2",
          min_nodes=0, max_nodes=4, vnet_resourcegroup_name=vnet_resourcegroup_name,
          vnet_name=vnet_name, subnet_name=subnet_name)
      cpu_cluster = ComputeTarget.create(ws, cpu_cluster_name, compute_config)
      cpu_cluster.wait_for_completion(show_output=True)

  aks_cluster_name = 'aksvnetcluster1'
  try:
      aks_target = ComputeTarget(workspace=ws, name=aks_cluster_name)
      print("Found existing aks cluster")
  except ComputeTargetException:
      print("Creating new aks cluster")
      config = AksCompute.provisioning_configuration(location=ws.location)
      config.vnet_resourcegroup_name = ws.resource_group
      config.vnet_name = "AMLVNetDemo"
      config.subnet_name = "default"
      config.service_cidr = "10.0.0.0/16"
      config.dns_service_ip = "10.0.0.10"
      config.docker_bridge_cidr = "172.18.0.1/16"
      config.cluster_purpose = "DevTest"
      aks_target = ComputeTarget.create(workspace=ws, name=aks_cluster_name,
                                        provisioning_configuration=config)
  \<close>
  The calls into the SDK are parameters: the lookup \<open>ComputeTarget(workspace, name)\<close>,
  \<open>ComputeTarget.create\<close> and \<open>wait_for_completion\<close> each return or raise. Each cell
  makes each call at most once, so a function of the call's arguments stands for what
  the control plane answers in that run. The compute target object is opaque (\<open>'c\<close>).
  A run of a cell yields the calls it made and the lines it printed, in order, and
  either the bound cluster variable or the exception that left the cell.
\<close>

record workspace =
  ws_name :: string
  resource_group :: string
  location :: string

datatype setting = Str string | Num int

datatype compute_kind = AmlCompute | AksCompute

record provisioning_configuration =
  kind :: compute_kind
  settings :: "(string \<times> setting) list"

record 'c sdk =
  ComputeTarget :: "workspace \<Rightarrow> string \<Rightarrow> 'c result"
  ComputeTarget_create :: "workspace \<Rightarrow> string \<Rightarrow> provisioning_configuration \<Rightarrow> 'c result"
  wait_for_completion :: "'c \<Rightarrow> unit result"

datatype event =
    Printed string
  | Looked_up string
  | Created string provisioning_configuration
  | Waited

text \<open>\<open>config.attribute = v\<close> on a configuration object.\<close>

definition set_attr :: "string \<Rightarrow> setting \<Rightarrow> provisioning_configuration \<Rightarrow> provisioning_configuration" where
  "set_attr a v config = config\<lparr>settings := dict_set (settings config) a v\<rparr>"

definition vnet_name :: string where
  "vnet_name = ''AMLVNetDemo''"

definition subnet_name :: string where
  "subnet_name = ''default''"

definition cpu_cluster_name :: string where
  "cpu_cluster_name = ''vnetcluster''"

definition aks_cluster_name :: string where
  "aks_cluster_name = ''aksvnetcluster1''"

definition compute_config :: "workspace \<Rightarrow> provisioning_configuration" where
  "compute_config ws =
     \<lparr>kind = AmlCompute,
      settings = [(''vm_size'', Str ''STANDARD_D2_V2''), (''min_nodes'', Num 0),
                  (''max_nodes'', Num 4),
                  (''vnet_resourcegroup_name'', Str (resource_group ws)),
                  (''vnet_name'', Str vnet_name), (''subnet_name'', Str subnet_name)]\<rparr>"

definition aks_config :: "workspace \<Rightarrow> provisioning_configuration" where
  "aks_config ws =
     (set_attr ''cluster_purpose'' (Str ''DevTest'')
     (set_attr ''docker_bridge_cidr'' (Str ''172.18.0.1/16'')
     (set_attr ''dns_service_ip'' (Str ''10.0.0.10'')
     (set_attr ''service_cidr'' (Str ''10.0.0.0/16'')
     (set_attr ''subnet_name'' (Str ''default'')
     (set_attr ''vnet_name'' (Str ''AMLVNetDemo'')
     (set_attr ''vnet_resourcegroup_name'' (Str (resource_group ws))
       \<lparr>kind = AksCompute, settings = [(''location'', Str (location ws))]\<rparr>)))))))"

definition cpu_cluster_cell :: "'c sdk \<Rightarrow> workspace \<Rightarrow> event list \<times> 'c result" where
  "cpu_cluster_cell sdk ws =
     (case ComputeTarget sdk ws cpu_cluster_name of
        Inr cpu_cluster \<Rightarrow>
          ([Looked_up cpu_cluster_name,
            Printed (''Found existing cluster with name '' @ cpu_cluster_name)],
           Inr cpu_cluster)
      | Inl e \<Rightarrow>
          if is_ComputeTargetException (exc_cls e) then
            (case ComputeTarget_create sdk ws cpu_cluster_name (compute_config ws) of
               Inl e1 \<Rightarrow>
                 ([Looked_up cpu_cluster_name,
                   Printed (''Creating new cluster with name '' @ cpu_cluster_name),
                   Created cpu_cluster_name (compute_config ws)],
                  Inl e1)
             | Inr cpu_cluster \<Rightarrow>
                 (case wait_for_completion sdk cpu_cluster of
                    Inl e2 \<Rightarrow>
                      ([Looked_up cpu_cluster_name,
                        Printed (''Creating new cluster with name '' @ cpu_cluster_name),
                        Created cpu_cluster_name (compute_config ws), Waited],
                       Inl e2)
                  | Inr u \<Rightarrow>
                      ([Looked_up cpu_cluster_name,
                        Printed (''Creating new cluster with name '' @ cpu_cluster_name),
                        Created cpu_cluster_name (compute_config ws), Waited],
                       Inr cpu_cluster)))
          else ([Looked_up cpu_cluster_name], Inl e))"

definition aks_target_cell :: "'c sdk \<Rightarrow> workspace \<Rightarrow> event list \<times> 'c result" where
  "aks_target_cell sdk ws =
     (case ComputeTarget sdk ws aks_cluster_name of
        Inr aks_target \<Rightarrow>
          ([Looked_up aks_cluster_name, Printed ''Found existing aks cluster''], Inr aks_target)
      | Inl e \<Rightarrow>
          if is_ComputeTargetException (exc_cls e) then
            (case ComputeTarget_create sdk ws aks_cluster_name (aks_config ws) of
               Inl e1 \<Rightarrow>
                 ([Looked_up aks_cluster_name, Printed ''Creating new aks cluster'',
                   Created aks_cluster_name (aks_config ws)],
                  Inl e1)
             | Inr aks_target \<Rightarrow>
                 ([Looked_up aks_cluster_name, Printed ''Creating new aks cluster'',
                   Created aks_cluster_name (aks_config ws)],
                  Inr aks_target))
          else ([Looked_up aks_cluster_name], Inl e))"

text \<open>Whether a run of a cell asked the control plane to create a cluster.\<close>

fun is_Created :: "event \<Rightarrow> bool" where
  "is_Created (Created n c) = True"
| "is_Created ev = False"

definition attempted_creation :: "event list \<times> 'c result \<Rightarrow> bool" where
  "attempted_creation run_of_cell = (filter is_Created (fst run_of_cell) \<noteq> [])"

text \<open>
  A control plane for the examples: the compute targets it holds by name (a target is
  its name and configuration). The lookup raises \<open>ComputeTargetException\<close> for a name
  it does not hold, creation and waiting succeed.
\<close>

type_synonym target = "string \<times> provisioning_configuration"

definition plane :: "target list \<Rightarrow> target sdk" where
  "plane held =
     \<lparr>ComputeTarget = (\<lambda>ws n.
          case filter (\<lambda>t. fst t = n) held of
            [] \<Rightarrow> Inl (Raised ComputeTargetException ''ComputeTargetNotFound'')
          | t # ts \<Rightarrow> Inr t),
      ComputeTarget_create = (\<lambda>ws n c. Inr (n, c)),
      wait_for_completion = (\<lambda>t. Inr ())\<rparr>"

text \<open>A control plane that answers each call in a fixed way.\<close>

definition scripted_plane :: "target result \<Rightarrow> target result \<Rightarrow> unit result \<Rightarrow> target sdk" where
  "scripted_plane looked_up created waited =
     \<lparr>ComputeTarget = (\<lambda>ws n. looked_up),
      ComputeTarget_create = (\<lambda>ws n c. created),
      wait_for_completion = (\<lambda>t. waited)\<rparr>"

definition not_found :: pyexc where
  "not_found = Raised ComputeTargetException ''ComputeTargetNotFound''"

definition auth_failure :: pyexc where
  "auth_failure = Raised (OtherException ''AuthenticationException'') ''Could not retrieve user token''"

definition quota_failure :: pyexc where
  "quota_failure = Raised ComputeTargetException ''Quota exceeded''"

definition provisioning_failure :: pyexc where
  "provisioning_failure = Raised ComputeTargetException ''Provisioning failed''"

text \<open>The targets a control plane holds after the creations of a run.\<close>

fun created_targets :: "event list \<Rightarrow> target list" where
  "created_targets [] = []"
| "created_targets (Created n c # evs) = (n, c) # created_targets evs"
| "created_targets (ev # evs) = created_targets evs"

definition demo_ws :: workspace where
  "demo_ws = \<lparr>ws_name = ''aml-workshop'', resource_group = ''aml-workshop'', location = ''eastus2''\<rparr>"

section \<open>Tables for the examples\<close>

text \<open>A small staff table with the four columns that the notebook drops, and the label.\<close>

definition hr_table :: dataframe where
  "hr_table =
     \<lparr>index = [0, 1],
      columns =
        [(''Age'', \<lparr>dtype = Int64, cells = [IntCell 41, IntCell 49]\<rparr>),
         (''Attrition'', \<lparr>dtype = Object, cells = [StrCell ''Yes'', StrCell ''No'']\<rparr>),
         (''EmployeeCount'', \<lparr>dtype = Int64, cells = [IntCell 1, IntCell 1]\<rparr>),
         (''EmployeeNumber'', \<lparr>dtype = Int64, cells = [IntCell 1, IntCell 2]\<rparr>),
         (''Gender'', \<lparr>dtype = Object, cells = [StrCell ''Female'', StrCell ''Male'']\<rparr>),
         (''Over18'', \<lparr>dtype = Object, cells = [StrCell ''Y'', StrCell ''Y'']\<rparr>),
         (''DailyRate'', \<lparr>dtype = Int64, cells = [IntCell 1102, IntCell 279]\<rparr>),
         (''StandardHours'', \<lparr>dtype = Int64, cells = [IntCell 80, IntCell 80]\<rparr>)]\<rparr>"

text \<open>The feature table that remains of it: the four columns and the label dropped.\<close>

definition hr_features :: dataframe where
  "hr_features =
     \<lparr>index = [0, 1],
      columns =
        [(''Age'', \<lparr>dtype = Int64, cells = [IntCell 41, IntCell 49]\<rparr>),
         (''Gender'', \<lparr>dtype = Object, cells = [StrCell ''Female'', StrCell ''Male'']\<rparr>),
         (''DailyRate'', \<lparr>dtype = Int64, cells = [IntCell 1102, IntCell 279]\<rparr>)]\<rparr>"

text \<open>A table in which two columns carry the label A and two the label B.\<close>

definition repeated_labels_table :: dataframe where
  "repeated_labels_table =
     \<lparr>index = [0],
      columns =
        [(''A'', \<lparr>dtype = Object, cells = [StrCell ''x'']\<rparr>),
         (''A'', \<lparr>dtype = Object, cells = [StrCell ''y'']\<rparr>),
         (''B'', \<lparr>dtype = Int64, cells = [IntCell 1]\<rparr>),
         (''B'', \<lparr>dtype = Int64, cells = [IntCell 2]\<rparr>)]\<rparr>"



text \<open>A per-row decision for the examples: 0 for the row whose Age is 41, else 1.\<close>

definition label_of_age :: "row \<Rightarrow> int" where
  "label_of_age r = (if (''Age'', IntCell 41) \<in> set (snd r) then 0 else 1)"

section \<open>The specification's partition property\<close>

text \<open>
  The specification's words for the two lists of column labels: a strict, disjoint split
  that covers every feature column exactly once. The lists share no label, and together
  they hold the table's column labels, each as often as the table has a column of it.
\<close>

definition strict_partition :: "dataframe \<Rightarrow> bool" where
  "strict_partition X =
     (set (categorical X) \<inter> set (numerical X) = {} \<and>
      mset (categorical X @ numerical X) = mset (labels X))"


section \<open>Text that decodes to the value it encodes\<close>

text \<open>
  The notions used to show that \<open>json.loads\<close> returns the value whose encoding it is
  given. A number must not be followed by a digit, a point or an exponent mark, or the
  decoder would read on.
\<close>

definition follow_ok :: "string \<Rightarrow> bool" where
  "follow_ok rest =
     (rest = [] \<or> \<not> (is_digit (hd rest) \<or> hd rest = CHR ''.'' \<or> hd rest = CHR ''e'' \<or> hd rest = CHR ''E''))"

text \<open>An escape of characters that the decoder of strings undoes.\<close>

definition invertible_escape :: "(char \<Rightarrow> string) \<Rightarrow> bool" where
  "invertible_escape esc = (\<forall>c tail. parse_chars (esc c @ tail) = cons_char c (parse_chars tail))"

text \<open>
  Text that starts a value: not blank, and not the bracket or brace that closes an empty
  list or object. A separator is its punctuation mark followed by blanks only.
\<close>

definition starts_value :: "string \<Rightarrow> bool" where
  "starts_value s = (s \<noteq> [] \<and> \<not> is_ws (hd s) \<and> hd s \<noteq> CHR '']'' \<and> hd s \<noteq> CHR ''}'')"

definition separator :: "char \<Rightarrow> string \<Rightarrow> bool" where
  "separator c sep = (sep \<noteq> [] \<and> hd sep = c \<and> (\<forall>w \<in> set (tl sep). is_ws w))"

text \<open>
  A value is well formed when no dict in it has a key twice: \<open>json.loads\<close> builds a dict
  from the pairs it reads, which keeps one value per key.
\<close>

fun wf_json :: "pyval \<Rightarrow> bool" where
  "wf_json (PyList xs) = (\<forall>x \<in> set xs. wf_json x)"
| "wf_json (PyDict kvs) = (distinct (map fst kvs) \<and> (\<forall>v \<in> snd ` set kvs. wf_json v))"
| "wf_json v = True"

text \<open>The text of one key with its value inside an object.\<close>

definition member_text :: "(char \<Rightarrow> string) \<Rightarrow> string \<Rightarrow> string \<Rightarrow> string \<times> pyval \<Rightarrow> string" where
  "member_text esc isep ksep kv = quoted esc (fst kv) @ ksep @ encode esc isep ksep (snd kv)"

text \<open>\<open>obj[key]\<close> on a decoded value.\<close>

definition getitem_key :: "pyval \<Rightarrow> string \<Rightarrow> pyval result" where
  "getitem_key obj k =
     (case obj of
        PyDict kvs \<Rightarrow>
          (case map_of kvs k of
             None \<Rightarrow> Inl (Raised KeyError ([CHR 0x27] @ k @ [CHR 0x27]))
           | Some v \<Rightarrow> Inr v)
      | _ \<Rightarrow> Inl (Raised (OtherException ''TypeError'') ''object is not subscriptable''))"

text \<open>What the body of a request holds under the key \<open>data\<close>, once decoded.\<close>

definition request_data :: "http_request result \<Rightarrow> pyval result" where
  "request_data r =
     and_then r (\<lambda>q. and_then (json_loads (body q)) (\<lambda>obj. getitem_key obj ''data''))"

section \<open>The specification's scoring payload\<close>

text \<open>
  The specification's words for what the scoring endpoint returns: a JSON object with
  either the key \<open>result\<close>, a single integer 0 or 1, or the key \<open>error\<close>, never both.
\<close>

fun claimed_scoring_payload :: "pyval \<Rightarrow> bool" where
  "claimed_scoring_payload (PyDict [(k, PyInt i)]) = (k = ''result'' \<and> (i = 0 \<or> i = 1))"
| "claimed_scoring_payload (PyDict [(k, PyStr m)]) = (k = ''error'')"
| "claimed_scoring_payload v = False"

section \<open>The body of the sample request\<close>

text \<open>The text that the notebook posts for its sample, as \<open>json.dumps\<close> writes it.\<close>

definition sample_body :: string where
  \<open>sample_body =
       ''{"data": {"Age": {"0": 41}, "BusinessTravel": {"0": "Travel_Rarely"}, '' @
       ''"DailyRate": {"0": 1102}, "Department": {"0": "Sales"}, '' @
       ''"DistanceFromHome": {"0": 1}, "Education": {"0": 2}, '' @
       ''"EducationField": {"0": "Life Sciences"}, '' @
       ''"EnvironmentSatisfaction": {"0": 2}, "Gender": {"0": "Female"}, '' @
       ''"HourlyRate": {"0": 94}, "JobInvolvement": {"0": 3}, '' @
       ''"JobLevel": {"0": 2}, "JobRole": {"0": "Sales Executive"}, '' @
       ''"JobSatisfaction": {"0": 4}, "MaritalStatus": {"0": "Single"}, '' @
       ''"MonthlyIncome": {"0": 5993}, "MonthlyRate": {"0": 19479}, '' @
       ''"NumCompaniesWorked": {"0": 8}, "OverTime": {"0": 0}, '' @
       ''"PercentSalaryHike": {"0": 11}, "PerformanceRating": {"0": 3}, '' @
       ''"RelationshipSatisfaction": {"0": 1}, "StockOptionLevel": {"0": 0}, '' @
       ''"TotalWorkingYears": {"0": 8}, "TrainingTimesLastYear": {"0": 0}, '' @
       ''"WorkLifeBalance": {"0": 1}, "YearsAtCompany": {"0": 6}, '' @
       ''"YearsInCurrentRole": {"0": 4}, "YearsSinceLastPromotion": {"0": 0}, '' @
       ''"YearsWithCurrManager": {"0": 5}}}''\<close>

section \<open>Evaluating the encoder on literals\<close>

lemma dec_nat_numeral [simp]:
  "dec_nat (numeral k) =
     (if numeral k < (10::nat) then [dec_digit (numeral k)]
      else dec_nat (numeral k div 10) @ [dec_digit (numeral k)])"
  by (rule dec_nat.simps)

lemma dec_nat_0 [simp]: "dec_nat 0 = ''0''"
  by (simp add: dec_nat.simps [of 0] dec_digit_def char_of_def bit_0)

lemma dec_nat_1 [simp]: "dec_nat (Suc 0) = ''1''"
  by (simp add: dec_nat.simps [of "Suc 0"] dec_digit_def char_of_def bit_0)

lemmas encoder_defs =
  json_dumps_def ujson_dumps_def quoted_def escape_char_def ujson_escape_char_def
  dec_int_def dec_digit_def hex_digit_def char_of_def bit_0

section \<open>Sequencing\<close>

lemma and_then_Inr: "and_then (Inr x) f = f x"
  by (simp add: and_then_def)

lemma and_then_Inl: "and_then (Inl e) f = Inl e"
  by (simp add: and_then_def)

section \<open>Decoding undoes encoding\<close>

text \<open>
  \<open>json.loads\<close> returns the value whose encoding it is given, for the encoder of the
  json module and for the one of pandas, on every value in which no dict repeats a key.
\<close>

subsection \<open>Digits\<close>

lemma of_char_dec_digit: "(of_char (dec_digit n) :: nat) = 48 + n mod 10"
proof -
  have "48 + n mod 10 < 256"
    by (rule less_trans [of _ 58]) simp_all
  then show ?thesis by (simp add: dec_digit_def)
qed

lemma is_digit_dec_digit: "is_digit (dec_digit n)"
  by (simp add: is_digit_def of_char_dec_digit)

lemma dec_nat_nonempty: "dec_nat n \<noteq> []"
  by (subst dec_nat.simps) simp

lemma dec_nat_digits: "c \<in> set (dec_nat n) \<Longrightarrow> is_digit c"
proof (induction n rule: dec_nat.induct)
  case (1 n)
  then show ?case
    by (subst (asm) (2) dec_nat.simps) (auto simp: is_digit_dec_digit split: if_splits)
qed

lemma digits_val_snoc: "digits_val (ds @ [c]) = 10 * digits_val ds + ((of_char c :: nat) - 48)"
  by (simp add: digits_val_def)

lemma digits_val_dec_nat: "digits_val (dec_nat n) = n"
proof (induction n rule: dec_nat.induct)
  case (1 n)
  show ?case
  proof (cases "n < 10")
    case True
    then show ?thesis
      by (subst dec_nat.simps) (simp add: digits_val_def of_char_dec_digit)
  next
    case False
    with 1 have "digits_val (dec_nat (n div 10)) = n div 10" by simp
    with False show ?thesis
      by (subst dec_nat.simps) (simp add: digits_val_snoc of_char_dec_digit)
  qed
qed

lemma hd_dec_nat_zero: "hd (dec_nat n) = CHR ''0'' \<longleftrightarrow> n = 0"
proof (induction n rule: dec_nat.induct)
  case (1 n)
  show ?case
  proof (cases "n < 10")
    case True
    have "dec_digit n = CHR ''0'' \<longleftrightarrow> (of_char (dec_digit n) :: nat) = of_char (CHR ''0'')"
      by (simp only: of_char_eq_iff)
    also have "\<dots> \<longleftrightarrow> n = 0"
      using True by (simp add: of_char_dec_digit)
    finally show ?thesis
      using True by (subst dec_nat.simps) simp
  next
    case False
    then have "n div 10 \<noteq> 0" by simp
    with 1 False have "hd (dec_nat (n div 10)) \<noteq> CHR ''0''" by simp
    with False show ?thesis
      by (subst dec_nat.simps) (simp add: dec_nat_nonempty)
  qed
qed

subsection \<open>Numbers\<close>

lemma takeWhile_digits:
  assumes "rest = [] \<or> \<not> is_digit (hd rest)"
  shows "takeWhile is_digit (dec_nat n @ rest) = dec_nat n"
proof -
  have "takeWhile is_digit rest = []"
    using assms by (cases rest) auto
  then show ?thesis
    by (simp add: takeWhile_append2 dec_nat_digits)
qed

lemma hd_dec_nat_digit: "is_digit (hd (dec_nat n))"
  using dec_nat_digits [of "hd (dec_nat n)" n] dec_nat_nonempty [of n] by simp

lemma hd_dec_nat_not_minus: "hd (dec_nat n) \<noteq> CHR ''-''"
proof
  assume "hd (dec_nat n) = CHR ''-''"
  with hd_dec_nat_digit [of n] show False by (simp add: is_digit_def)
qed

lemma parse_number_nat:
  assumes "follow_ok rest"
  shows "parse_number (dec_nat n @ rest) = Some (PyInt (int n), rest)"
proof (cases "n = 0")
  case True
  with assms show ?thesis
    by (auto simp: parse_number_def Let_def follow_ok_def digits_val_def)
next
  case False
  then have nz: "hd (dec_nat n) \<noteq> CHR ''0''"
    by (simp add: hd_dec_nat_zero)
  have ne: "dec_nat n \<noteq> []" by (rule dec_nat_nonempty)
  have tw: "takeWhile is_digit (dec_nat n @ rest) = dec_nat n"
    using assms by (intro takeWhile_digits) (auto simp: follow_ok_def)
  show ?thesis
    using assms nz ne hd_dec_nat_not_minus [of n]
    by (auto simp: parse_number_def Let_def tw digits_val_dec_nat follow_ok_def)
qed

lemma parse_number_int:
  assumes "follow_ok rest"
  shows "parse_number (dec_int i @ rest) = Some (PyInt i, rest)"
proof (cases "i < 0")
  case False
  then show ?thesis
    using parse_number_nat [OF assms, of "nat i"] by (simp add: dec_int_def)
next
  case True
  then have pos: "nat (- i) \<noteq> 0" by simp
  then have nz: "hd (dec_nat (nat (- i))) \<noteq> CHR ''0''"
    by (simp add: hd_dec_nat_zero)
  have ne: "dec_nat (nat (- i)) \<noteq> []" by (rule dec_nat_nonempty)
  have tw: "takeWhile is_digit (dec_nat (nat (- i)) @ rest) = dec_nat (nat (- i))"
    using assms by (intro takeWhile_digits) (auto simp: follow_ok_def)
  show ?thesis
    using True assms nz ne
    by (auto simp: dec_int_def parse_number_def Let_def tw digits_val_dec_nat follow_ok_def)
qed

subsection \<open>Strings\<close>

lemma hex_val_hex_digit: "k < 16 \<Longrightarrow> hex_val (hex_digit k) = Some k"
proof -
  assume k: "k < 16"
  show ?thesis
  proof (cases "k < 10")
    case True
    then have "48 + k < 256" by simp
    with True k show ?thesis
      by (simp add: hex_val_def hex_digit_def Let_def)
  next
    case False
    with k have "87 + k < 256" by simp
    with False k show ?thesis
      by (simp add: hex_val_def hex_digit_def Let_def)
  qed
qed

lemma hex_val_zero: "hex_val (CHR ''0'') = Some 0"
  by (simp add: hex_val_def)

lemma parse_chars_u:
  "parse_chars (CHR 0x5C # CHR ''u'' # CHR ''0'' # CHR ''0'' #
      hex_digit ((of_char c :: nat) div 16) # hex_digit (of_char c) # tail) =
   cons_char c (parse_chars tail)"
proof -
  let ?n = "of_char c :: nat"
  have n: "?n < 256" by simp
  then have "?n div 16 < 16" by arith
  then have hi: "hex_val (hex_digit (?n div 16)) = Some (?n div 16)"
    by (rule hex_val_hex_digit)
  have "hex_digit ?n = hex_digit (?n mod 16)"
    by (simp add: hex_digit_def)
  then have lo: "hex_val (hex_digit ?n) = Some (?n mod 16)"
    by (simp add: hex_val_hex_digit)
  have "char_of (16 * (?n div 16) + ?n mod 16) = c"
    by simp
  then show ?thesis
    by (simp add: hi lo hex_val_zero)
qed

lemma parse_chars_escape_char:
  "parse_chars (escape_char c @ tail) = cons_char c (parse_chars tail)"
proof -
  have plain: "\<not> ((of_char c :: nat) < 0x20 \<or> 0x7E < (of_char c :: nat)) \<Longrightarrow>
               \<not> (of_char c :: nat) < 0x20"
    by simp
  show ?thesis
    unfolding escape_char_def
    by (simp add: parse_chars_u unescape_def del: parse_chars.simps)
       (auto simp: unescape_def)
qed

lemma parse_chars_ujson_escape_char:
  "parse_chars (ujson_escape_char c @ tail) = cons_char c (parse_chars tail)"
  unfolding ujson_escape_char_def
  by (simp add: parse_chars_u unescape_def del: parse_chars.simps)
     (auto simp: unescape_def)

lemma parse_chars_quoted:
  assumes "invertible_escape esc"
  shows "parse_chars (concat (map esc s) @ CHR 0x22 # rest) = Some (s, rest)"
proof (induction s)
  case Nil
  show ?case by simp
next
  case (Cons c s)
  have "parse_chars (esc c @ (concat (map esc s) @ CHR 0x22 # rest)) =
          cons_char c (parse_chars (concat (map esc s) @ CHR 0x22 # rest))"
    using assms by (simp only: invertible_escape_def)
  with Cons show ?case
    by (simp add: cons_char_def)
qed

subsection \<open>Whitespace and first characters\<close>

lemma skip_ws_starts: "starts_value s \<Longrightarrow> skip_ws (s @ t) = s @ t"
  by (cases s) (auto simp: starts_value_def skip_ws_def)

lemma skip_ws_blank: "\<forall>w \<in> set ws. is_ws w \<Longrightarrow> starts_value s \<Longrightarrow> skip_ws (ws @ s @ t) = s @ t"
  by (cases s) (auto simp: starts_value_def skip_ws_def dropWhile_append)

lemma skip_ws_cons: "\<not> is_ws c \<Longrightarrow> skip_ws (c # t) = c # t"
  by (simp add: skip_ws_def)

lemma digit_not_special:
  "is_digit c \<Longrightarrow> \<not> is_ws c \<and> c \<noteq> CHR '']'' \<and> c \<noteq> CHR ''}''"
  by (auto simp: is_digit_def is_ws_def)

lemma starts_value_dec_int: "starts_value (dec_int i @ t)"
proof -
  have "\<not> is_ws (hd (dec_nat n)) \<and> hd (dec_nat n) \<noteq> CHR '']'' \<and> hd (dec_nat n) \<noteq> CHR ''}''" for n
    by (rule digit_not_special) (rule hd_dec_nat_digit)
  then show ?thesis
    using dec_nat_nonempty by (auto simp: starts_value_def dec_int_def is_ws_def)
qed

lemma starts_value_encode: "starts_value (encode esc isep ksep v @ t)"
proof (cases v)
  case (PyInt i)
  then show ?thesis using starts_value_dec_int by simp
qed (auto simp: starts_value_def is_ws_def quoted_def)

lemma starts_value_quoted: "starts_value (quoted esc k @ t)"
  by (simp add: starts_value_def is_ws_def quoted_def)

lemma follow_ok_simps:
  "follow_ok []" "follow_ok (CHR '']'' # t)" "follow_ok (CHR ''}'' # t)" "follow_ok (CHR '','' # t)"
  by (simp_all add: follow_ok_def is_digit_def)

lemma follow_ok_separator: "separator (CHR '','') sep \<Longrightarrow> follow_ok (sep @ t)"
  by (cases sep) (auto simp: separator_def follow_ok_def is_digit_def)

subsection \<open>Dicts\<close>

lemma dict_set_fresh: "k \<notin> fst ` set d \<Longrightarrow> dict_set d k v = d @ [(k, v)]"
  by (induction d) auto

lemma foldl_dict_set:
  "distinct (map fst (acc @ kvs)) \<Longrightarrow> foldl (\<lambda>d (k, v). dict_set d k v) acc kvs = acc @ kvs"
proof (induction kvs arbitrary: acc)
  case Nil
  show ?case by simp
next
  case (Cons kv kvs)
  obtain k v where kv: "kv = (k, v)" by (cases kv)
  from Cons.prems have fresh: "k \<notin> fst ` set acc"
    by (auto simp: kv)
  from Cons.prems have "distinct (map fst ((acc @ [(k, v)]) @ kvs))"
    by (simp add: kv)
  then have "foldl (\<lambda>d (k, v). dict_set d k v) (acc @ [(k, v)]) kvs = (acc @ [(k, v)]) @ kvs"
    by (rule Cons.IH)
  with fresh show ?case
    by (simp add: kv dict_set_fresh)
qed

lemma dict_of_pairs_distinct: "distinct (map fst kvs) \<Longrightarrow> dict_of_pairs kvs = kvs"
  using foldl_dict_set [of "[]" kvs] by (simp add: dict_of_pairs_def)

subsection \<open>Items and members\<close>

lemma separator_comma_skip: "separator (CHR '','') sep \<Longrightarrow> \<exists>ws. sep = CHR '','' # ws \<and> (\<forall>w \<in> set ws. is_ws w)"
  by (cases sep) (auto simp: separator_def)

lemma separator_colon_skip: "separator (CHR '':'') sep \<Longrightarrow> \<exists>ws. sep = CHR '':'' # ws \<and> (\<forall>w \<in> set ws. is_ws w)"
  by (cases sep) (auto simp: separator_def)

lemma not_ws_punct: "\<not> is_ws (CHR '','')" "\<not> is_ws (CHR '':'')" "\<not> is_ws (CHR '']'')" "\<not> is_ws (CHR ''}'')"
  by (simp_all add: is_ws_def)

lemma skip_ws_blank_encode:
  assumes "\<forall>w \<in> set ws. is_ws w"
  shows "skip_ws (ws @ encode esc isep ksep v @ t) = encode esc isep ksep v @ t"
proof -
  have "starts_value (encode esc isep ksep v @ [])" by (rule starts_value_encode)
  then have "starts_value (encode esc isep ksep v)" by simp
  with assms show ?thesis by (rule skip_ws_blank)
qed

lemma join_Cons_append: "\<exists>t'. join sep (x # xs) @ t = x @ t'"
  by (cases xs) simp_all

lemma parse_array_items_join:
  assumes sep: "separator (CHR '','') isep"
    and IH: "\<And>x n rest. x \<in> set xs \<Longrightarrow> follow_ok rest \<Longrightarrow>
               2 * length (encode esc isep ksep x) \<le> n \<Longrightarrow>
               parse_value n (encode esc isep ksep x @ rest) = Some (x, rest)"
    and "xs \<noteq> []"
    and "2 * length (join isep (map (encode esc isep ksep) xs)) + 1 \<le> m"
  shows "parse_array_items m (join isep (map (encode esc isep ksep) xs) @ CHR '']'' # rest) = Some (xs, rest)"
  using IH assms(3,4)
proof (induction xs arbitrary: m)
  case Nil
  then show ?case by simp
next
  case (Cons x xs)
  let ?enc = "encode esc isep ksep"
  from Cons.prems(3) obtain m' where m: "m = Suc m'"
    by (cases m) auto
  show ?case
  proof (cases xs)
    case Nil
    have "2 * length (?enc x) \<le> m'"
      using Cons.prems(3) by (simp add: m Nil)
    then have "parse_value m' (?enc x @ CHR '']'' # rest) = Some (x, CHR '']'' # rest)"
      by (intro Cons.prems(1)) (simp_all add: follow_ok_simps)
    then show ?thesis
      by (simp add: m Nil skip_ws_cons not_ws_punct)
  next
    case (Cons y ys)
    obtain ws where isep: "isep = CHR '','' # ws" and ws: "\<forall>w \<in> set ws. is_ws w"
      using separator_comma_skip [OF sep] by blast
    let ?tail = "join isep (map ?enc (y # ys)) @ CHR '']'' # rest"
    have len: "2 * length (?enc x) \<le> m'" "2 * length (join isep (map ?enc (y # ys))) + 1 \<le> m'"
      using Cons.prems(3) by (simp_all add: m Cons isep)
    have "parse_value m' (?enc x @ (isep @ ?tail)) = Some (x, isep @ ?tail)"
      using len(1) by (intro Cons.prems(1)) (simp_all add: follow_ok_separator [OF sep])
    moreover have "skip_ws (isep @ ?tail) = CHR '','' # ws @ ?tail"
      by (simp add: isep skip_ws_cons not_ws_punct)
    moreover have "skip_ws (ws @ ?tail) = ?tail"
    proof -
      obtain t' where "?tail = ?enc y @ t'"
        using join_Cons_append [of isep "?enc y" "map ?enc ys" "CHR '']'' # rest"] by auto
      then show ?thesis
        by (simp only: skip_ws_blank_encode [OF ws])
    qed
    moreover have "parse_array_items m' ?tail = Some (y # ys, rest)"
      unfolding Cons [symmetric]
      using len(2) Cons.prems(1) by (intro Cons.IH) (simp_all add: Cons)
    ultimately show ?thesis
      by (simp add: m Cons)
  qed
qed

lemma encode_PyDict_members:
  "encode esc isep ksep (PyDict kvs) = ''{'' @ join isep (map (member_text esc isep ksep) kvs) @ ''}''"
proof -
  have "member_text esc isep ksep = (\<lambda>kv. quoted esc (fst kv) @ ksep @ encode esc isep ksep (snd kv))"
    by (rule ext) (simp add: member_text_def)
  then show ?thesis
    by (simp add: case_prod_unfold comp_def)
qed

lemma length_member_value: "length (encode esc isep ksep (snd kv)) < length (member_text esc isep ksep kv)"
  by (simp add: member_text_def quoted_def)

lemma parse_object_pairs_join:
  assumes inv: "invertible_escape esc"
    and isep: "separator (CHR '','') isep"
    and ksep: "separator (CHR '':'') ksep"
    and IH: "\<And>kv n rest. kv \<in> set kvs \<Longrightarrow> follow_ok rest \<Longrightarrow>
               2 * length (encode esc isep ksep (snd kv)) \<le> n \<Longrightarrow>
               parse_value n (encode esc isep ksep (snd kv) @ rest) = Some (snd kv, rest)"
    and "kvs \<noteq> []"
    and "2 * length (join isep (map (member_text esc isep ksep) kvs)) + 1 \<le> m"
  shows "parse_object_pairs m (join isep (map (member_text esc isep ksep) kvs) @ CHR ''}'' # rest) = Some (kvs, rest)"
  using IH assms(5,6)
proof (induction kvs arbitrary: m)
  case Nil
  then show ?case by simp
next
  case (Cons kv kvs)
  let ?enc = "encode esc isep ksep"
  let ?mem = "member_text esc isep ksep"
  obtain k v where kv: "kv = (k, v)" by (cases kv)
  from Cons.prems(3) obtain m' where m: "m = Suc m'"
    by (cases m) auto
  obtain ws where isep_eq: "isep = CHR '','' # ws" and ws: "\<forall>w \<in> set ws. is_ws w"
    using separator_comma_skip [OF isep] by blast
  obtain ws2 where ks: "ksep = CHR '':'' # ws2" and ws2: "\<forall>w \<in> set ws2. is_ws w"
    using separator_colon_skip [OF ksep] by blast
  have key: "parse_chars (concat (map esc k) @ CHR 0x22 # t) = Some (k, t)" for t
    by (rule parse_chars_quoted [OF inv])
  have colon: "skip_ws (ksep @ t) = CHR '':'' # ws2 @ t" for t
    by (simp add: ks skip_ws_cons not_ws_punct)
  have blank: "skip_ws (ws2 @ ?enc v @ t) = ?enc v @ t" for t
    by (rule skip_ws_blank_encode [OF ws2])
  show ?case
  proof (cases kvs)
    case Nil
    have "2 * length (?enc v) \<le> m'"
      using Cons.prems(3) length_member_value [of esc isep ksep kv] by (simp add: m Nil kv)
    then have "parse_value m' (?enc v @ CHR ''}'' # rest) = Some (v, CHR ''}'' # rest)"
      using Cons.prems(1) [where kv = kv and n = m' and rest = "CHR ''}'' # rest"] by (simp add: kv follow_ok_simps)
    then show ?thesis
      by (simp add: m Nil kv member_text_def quoted_def key colon blank skip_ws_cons not_ws_punct)
  next
    case (Cons kv2 kvs2)
    define T where "T = join isep (map ?mem (kv2 # kvs2)) @ CHR ''}'' # rest"
    have len: "2 * length (?enc v) \<le> m'" "2 * length (join isep (map ?mem (kv2 # kvs2))) + 1 \<le> m'"
      using Cons.prems(3) length_member_value [of esc isep ksep kv] by (simp_all add: m Cons isep_eq kv)
    have val: "parse_value m' (?enc v @ (isep @ T)) = Some (v, isep @ T)"
      using Cons.prems(1) [where kv = kv and n = m' and rest = "isep @ T"] len(1)
      by (simp add: kv follow_ok_separator [OF isep])
    have comma: "skip_ws (isep @ T) = CHR '','' # ws @ T"
      by (simp add: isep_eq skip_ws_cons not_ws_punct)
    have next_member: "skip_ws (ws @ T) = T"
    proof -
      obtain t' where t': "T = ?mem kv2 @ t'"
        unfolding T_def
        using join_Cons_append [of isep "?mem kv2" "map ?mem kvs2" "CHR ''}'' # rest"] by auto
      have "starts_value (quoted esc (fst kv2) @ [])" by (rule starts_value_quoted)
      then have "starts_value (quoted esc (fst kv2))" by simp
      then have "skip_ws (ws @ quoted esc (fst kv2) @ (ksep @ ?enc (snd kv2) @ t')) =
                   quoted esc (fst kv2) @ (ksep @ ?enc (snd kv2) @ t')"
        by (rule skip_ws_blank [OF ws])
      then have "skip_ws (ws @ (?mem kv2 @ t')) = ?mem kv2 @ t'"
        by (simp add: member_text_def)
      then show ?thesis
        by (simp only: t')
    qed
    have rest_members: "parse_object_pairs m' T = Some (kv2 # kvs2, rest)"
      unfolding T_def Cons [symmetric]
      using len(2) Cons.prems(1) by (intro Cons.IH) (simp_all add: Cons)
    have first: "join isep (map ?mem (kv # kvs)) @ CHR ''}'' # rest =
                   CHR 0x22 # concat (map esc k) @ CHR 0x22 # (ksep @ ?enc v @ (isep @ T))"
      by (simp add: Cons kv member_text_def quoted_def T_def)
    show ?thesis
      unfolding first m
      by (simp add: key colon blank val comma next_member rest_members kv Cons)
  qed
qed

subsection \<open>Values\<close>

lemma dec_int_first: "\<exists>c r. dec_int i = c # r \<and> (c = CHR ''-'' \<or> is_digit c)"
proof (cases "i < 0")
  case True
  then show ?thesis by (simp add: dec_int_def)
next
  case False
  obtain c r where cr: "dec_nat (nat i) = c # r"
    using dec_nat_nonempty [of "nat i"] by (cases "dec_nat (nat i)") auto
  then have "is_digit c"
    using hd_dec_nat_digit [of "nat i"] by simp
  with False cr show ?thesis by (simp add: dec_int_def)
qed

lemma parse_value_number:
  assumes "s = c # r" and "c = CHR ''-'' \<or> is_digit c"
  shows "parse_value (Suc n) s = parse_number s"
proof -
  have "c \<noteq> CHR 0x22 \<and> c \<noteq> CHR ''{'' \<and> c \<noteq> CHR ''['' \<and> c \<noteq> CHR ''n'' \<and> c \<noteq> CHR ''t'' \<and> c \<noteq> CHR ''f''"
    using assms(2) by (auto simp: is_digit_def)
  then show ?thesis
    by (simp add: assms(1))
qed

lemma encode_nonempty: "encode esc isep ksep v \<noteq> []"
  using starts_value_encode [of esc isep ksep v "[]"] by (simp add: starts_value_def)

lemma fuel_Suc: "2 * length (encode esc isep ksep v) \<le> n \<Longrightarrow> \<exists>n'. n = Suc n'"
  using encode_nonempty [of esc isep ksep v] by (cases n) auto

lemma parse_value_encode:
  assumes inv: "invertible_escape esc"
    and isep: "separator (CHR '','') isep"
    and ksep: "separator (CHR '':'') ksep"
  shows "wf_json v \<Longrightarrow> follow_ok rest \<Longrightarrow> 2 * length (encode esc isep ksep v) \<le> n \<Longrightarrow>
         parse_value n (encode esc isep ksep v @ rest) = Some (v, rest)"
proof (induction v arbitrary: n rest)
  case PyNone
  then obtain n' where "n = Suc n'" using fuel_Suc by blast
  then show ?case by simp
next
  case (PyBool b)
  then obtain n' where "n = Suc n'" using fuel_Suc by blast
  then show ?case by simp
next
  case (PyInt i)
  obtain c r where cr: "dec_int i = c # r" "c = CHR ''-'' \<or> is_digit c"
    using dec_int_first by blast
  from PyInt obtain n' where n: "n = Suc n'" using fuel_Suc by blast
  have "parse_value (Suc n') (dec_int i @ rest) = parse_number (dec_int i @ rest)"
    by (rule parse_value_number [of _ c "r @ rest"]) (simp_all add: cr)
  with PyInt.prems(2) show ?case
    by (simp add: n parse_number_int)
next
  case (PyStr s)
  then obtain n' where "n = Suc n'" using fuel_Suc by blast
  then show ?case
    by (simp add: quoted_def parse_chars_quoted [OF inv])
next
  case (PyList xs)
  let ?enc = "encode esc isep ksep"
  from PyList.prems obtain n' where n: "n = Suc n'" using fuel_Suc by blast
  show ?case
  proof (cases xs)
    case Nil
    then show ?thesis by (simp add: n skip_ws_cons not_ws_punct)
  next
    case (Cons y ys)
    define T where "T = join isep (map ?enc xs) @ CHR '']'' # rest"
    have items: "parse_array_items n' T = Some (xs, rest)"
      unfolding T_def
    proof (rule parse_array_items_join [OF isep])
      show "xs \<noteq> []" by (simp add: Cons)
      show "2 * length (join isep (map ?enc xs)) + 1 \<le> n'"
        using PyList.prems(3) by (simp add: n)
      fix x m t
      assume "x \<in> set xs" "follow_ok t" "2 * length (?enc x) \<le> m"
      then show "parse_value m (?enc x @ t) = Some (x, t)"
        using PyList.IH [of x t m] PyList.prems(1) by simp
    qed
    obtain t' where t': "T = ?enc y @ t'"
      unfolding T_def Cons using join_Cons_append [of isep "?enc y" "map ?enc ys" "CHR '']'' # rest"] by auto
    have sv: "starts_value (?enc y @ t')" by (rule starts_value_encode)
    then have skip: "skip_ws T = T"
      using skip_ws_starts [of "?enc y @ t'" "[]"] by (simp add: t')
    obtain d r' where T_cons: "T = d # r'" and d: "d \<noteq> CHR '']''"
      using sv by (cases "?enc y @ t'") (auto simp: t' starts_value_def)
    have "?enc (PyList xs) @ rest = CHR ''['' # T"
      by (simp add: T_def)
    then show ?thesis
      using items d by (simp add: n skip T_cons [symmetric]) (simp add: T_cons)
  qed
next
  case (PyDict kvs)
  let ?enc = "encode esc isep ksep"
  let ?mem = "member_text esc isep ksep"
  from PyDict.prems obtain n' where n: "n = Suc n'" using fuel_Suc by blast
  have dist: "distinct (map fst kvs)"
    using PyDict.prems(1) by simp
  show ?case
  proof (cases kvs)
    case Nil
    then show ?thesis by (simp add: n skip_ws_cons not_ws_punct dict_of_pairs_def)
  next
    case (Cons kv kvs')
    define T where "T = join isep (map ?mem kvs) @ CHR ''}'' # rest"
    have pairs: "parse_object_pairs n' T = Some (kvs, rest)"
      unfolding T_def
    proof (rule parse_object_pairs_join [OF inv isep ksep])
      show "kvs \<noteq> []" by (simp add: Cons)
      show "2 * length (join isep (map ?mem kvs)) + 1 \<le> n'"
        using PyDict.prems(3) by (simp add: n encode_PyDict_members del: encode.simps)
      fix kv m t
      assume "kv \<in> set kvs" "follow_ok t" "2 * length (?enc (snd kv)) \<le> m"
      moreover have "snd kv \<in> Basic_BNFs.snds kv"
        by (rule Basic_BNFs.snds.intros)
      ultimately show "parse_value m (?enc (snd kv) @ t) = Some (snd kv, t)"
        using PyDict.IH [of kv "snd kv" t m] PyDict.prems(1)
        by auto
    qed
    obtain t' where t': "T = quoted esc (fst kv) @ t'"
      unfolding T_def Cons
      using join_Cons_append [of isep "?mem kv" "map ?mem kvs'" "CHR ''}'' # rest"]
      by (auto simp: member_text_def)
    have sv: "starts_value (quoted esc (fst kv) @ t')" by (rule starts_value_quoted)
    then have skip: "skip_ws T = T"
      using skip_ws_starts [of "quoted esc (fst kv) @ t'" "[]"] by (simp add: t')
    obtain d r' where T_cons: "T = d # r'" and d: "d \<noteq> CHR ''}''"
      using sv by (cases "quoted esc (fst kv) @ t'") (auto simp: t' starts_value_def)
    have "?enc (PyDict kvs) @ rest = CHR ''{'' # T"
      by (simp add: T_def encode_PyDict_members del: encode.simps)
    then show ?thesis
      using pairs d dist
      by (simp add: n skip T_cons [symmetric] del: encode.simps)
         (simp add: T_cons dict_of_pairs_distinct)
  qed
qed

subsection \<open>Decoding what was encoded\<close>

lemma json_loads_encode:
  assumes "invertible_escape esc" and "separator (CHR '','') isep" and "separator (CHR '':'') ksep"
    and "wf_json v"
  shows "json_loads (encode esc isep ksep v) = Inr v"
proof -
  let ?s = "encode esc isep ksep v"
  have "starts_value (?s @ [])" by (rule starts_value_encode)
  then have skip: "skip_ws ?s = ?s"
    using skip_ws_starts [of ?s "[]"] by simp
  have "parse_value (2 * length ?s + 2) (?s @ []) = Some (v, [])"
    using assms by (intro parse_value_encode) (simp_all add: follow_ok_simps)
  then have parsed: "parse_value (2 * length ?s + 2) ?s = Some (v, [])"
    by (simp only: append_Nil2)
  show ?thesis
    unfolding json_loads_def skip parsed by (simp add: skip_ws_def)
qed

lemma invertible_escape_char: "invertible_escape escape_char"
  by (simp add: invertible_escape_def parse_chars_escape_char)

lemma invertible_ujson_escape_char: "invertible_escape ujson_escape_char"
  by (simp add: invertible_escape_def parse_chars_ujson_escape_char)

lemma json_loads_json_dumps: "wf_json v \<Longrightarrow> json_loads (json_dumps v) = Inr v"
  unfolding json_dumps_def
  by (rule json_loads_encode [OF invertible_escape_char]) (simp_all add: separator_def is_ws_def)

lemma json_loads_ujson_dumps: "wf_json v \<Longrightarrow> json_loads (ujson_dumps v) = Inr v"
  unfolding ujson_dumps_def
  by (rule json_loads_encode [OF invertible_ujson_escape_char]) (simp_all add: separator_def)

lemma dec_int_inj: "dec_int i = dec_int j \<Longrightarrow> i = j"
proof -
  assume "dec_int i = dec_int j"
  then have "parse_number (dec_int i @ []) = parse_number (dec_int j @ [])" by simp
  then show "i = j"
    by (simp only: parse_number_int [OF follow_ok_simps(1)]) simp
qed

lemma wf_json_cell: "wf_json (cell_json x)"
  by (cases x) (simp_all add: cell_json_def)

lemma distinct_index_keys:
  assumes "distinct idx"
  shows "distinct (map fst (map (\<lambda>(i, x). (dec_int i, cell_json x)) (zip idx cs)))"
proof -
  have "map fst (map (\<lambda>(i, x). (dec_int i, cell_json x)) (zip idx cs)) =
          map dec_int (map fst (zip idx cs))"
    by (simp add: case_prod_unfold comp_def)
  then have eq: "map fst (map (\<lambda>(i, x). (dec_int i, cell_json x)) (zip idx cs)) =
            map dec_int (take (min (length idx) (length cs)) idx)"
    by (simp only: map_fst_zip_take)
  have "distinct (take (min (length idx) (length cs)) idx)"
    using assms by simp
  moreover have "inj_on dec_int A" for A
    by (rule inj_onI) (rule dec_int_inj)
  ultimately show ?thesis
    unfolding eq by (simp add: distinct_map)
qed

lemma wf_json_columns_dict:
  assumes "distinct (index df)" and "distinct (labels df)"
  shows "wf_json (columns_dict df)"
proof -
  have inner: "wf_json (PyDict (map (\<lambda>(i, x). (dec_int i, cell_json x)) (zip (index df) (cells s))))" for s
    using distinct_index_keys [OF assms(1)] by (auto simp: wf_json_cell)
  have keys: "map fst (map (\<lambda>(c, s). (c, PyDict (map (\<lambda>(i, x). (dec_int i, cell_json x)) (zip (index df) (cells s))))) (columns df)) = labels df"
    by (simp add: labels_def case_prod_unfold comp_def)
  show ?thesis
    unfolding columns_dict_def wf_json.simps keys
    using assms(2) inner by (auto simp: case_prod_unfold)
qed

lemma to_json_then_loads:
  "DataFrame_to_json df = Inr txt \<Longrightarrow> json_loads txt = Inr (columns_dict df)"
  by (auto simp: DataFrame_to_json_def json_loads_ujson_dumps wf_json_columns_dict split: if_splits)

section \<open>The scoring function\<close>

lemma run_converted:
  "deserialize raw = Inr data \<Longrightarrow> run deserialize model raw = run_body model data"
  by (simp add: run_def input_schema_def output_schema_def)

lemma run_not_converted:
  "deserialize raw = Inl e \<Longrightarrow> run deserialize model raw = Inl e"
  by (simp add: run_def input_schema_def)

lemma run_body_success:
  "model_predict model data = Inr preds \<Longrightarrow>
   run_body model data = Inr (PyStr (json_dumps (PyDict [(''result'', PyList (map PyInt preds))])))"
  by (simp add: run_body_def tolist_def)

lemma run_body_caught:
  "model_predict model data = Inl e \<Longrightarrow> is_Exception (exc_cls e) \<Longrightarrow>
   run_body model data = Inr (PyStr (json_dumps (PyDict [(''error'', PyStr (str e))])))"
  by (simp add: run_body_def)

lemma run_body_uncaught:
  "model_predict model data = Inl e \<Longrightarrow> \<not> is_Exception (exc_cls e) \<Longrightarrow> run_body model data = Inl e"
  by (simp add: run_body_def)

lemma run_body_returns_payload:
  "run_body model data = Inr v \<Longrightarrow>
   (\<exists>preds. v = PyStr (json_dumps (PyDict [(''result'', PyList (map PyInt preds))]))) \<or>
   (\<exists>m. v = PyStr (json_dumps (PyDict [(''error'', PyStr m)])))"
  by (auto simp: run_body_def tolist_def split: sum.splits if_splits)

lemma run_returns_payload:
  assumes "run deserialize model raw = Inr v"
  shows "(\<exists>preds. v = PyStr (json_dumps (PyDict [(''result'', PyList (map PyInt preds))]))) \<or>
         (\<exists>m. v = PyStr (json_dumps (PyDict [(''error'', PyStr m)])))"
proof (cases "deserialize raw")
  case (Inl e)
  with assms show ?thesis by (simp add: run_not_converted)
next
  case (Inr data)
  with assms have "run_body model data = Inr v" by (simp add: run_converted)
  then show ?thesis by (rule run_body_returns_payload)
qed

lemma run_returns_str:
  "run deserialize model raw = Inr v \<Longrightarrow> \<exists>kvs. v = PyStr (json_dumps (PyDict kvs))"
  using run_returns_payload [of deserialize model raw v] by blast

lemma wf_json_result: "wf_json (PyDict [(''result'', PyList (map PyInt preds))])"
  by simp

lemma wf_json_error: "wf_json (PyDict [(''error'', PyStr m)])"
  by simp

lemma json_loads_result:
  "json_loads (json_dumps (PyDict [(''result'', PyList (map PyInt preds))])) =
     Inr (PyDict [(''result'', PyList (map PyInt preds))])"
  by (rule json_loads_json_dumps [OF wf_json_result])

lemma json_loads_error:
  "json_loads (json_dumps (PyDict [(''error'', PyStr m)])) = Inr (PyDict [(''error'', PyStr m)])"
  by (rule json_loads_json_dumps [OF wf_json_error])

lemma models_of_the_examples:
  "model_predict (Some (predicts preds)) data = Inr preds"
  "model_predict (Some (raises e)) data = Inl e"
  "model_predict None data = Inl (Raised NameError ''name 'model' is not defined'')"
  by (simp_all add: model_predict_def predicts_def raises_def)

lemma texts_of_the_examples:
  \<open>json_dumps (PyDict [(''result'', PyList [PyInt 1, PyInt 0])]) = ''{"result": [1, 0]}''\<close>
  \<open>json_dumps (PyDict [(''result'', PyList [PyInt 0])]) = ''{"result": [0]}''\<close>
  \<open>json_dumps (PyDict [(''error'', PyStr ''bad input'')]) = ''{"error": "bad input"}''\<close>
  \<open>json_dumps (PyDict [(''error'', PyStr ''name 'model' is not defined'')]) =
     ''{"error": "name 'model' is not defined"}''\<close>
  by (simp_all add: encoder_defs)

lemma conversions_of_the_examples:
  "run (converts_to data) model raw = run_body model data"
  "run (cannot_convert e) model raw = Inl e"
  by (simp_all add: run_def input_schema_def output_schema_def converts_to_def cannot_convert_def)

lemma runs_of_the_examples:
  \<open>run (converts_to ()) (Some (predicts [1, 0])) () = Inr (PyStr ''{"result": [1, 0]}'')\<close>
  \<open>run (converts_to ()) (Some (predicts [0])) () = Inr (PyStr ''{"result": [0]}'')\<close>
  \<open>run (converts_to ()) (Some (raises (Raised ValueError ''bad input''))) () =
     Inr (PyStr ''{"error": "bad input"}'')\<close>
  \<open>run (converts_to ()) (Some (raises (Raised SystemExit ''1''))) () = Inl (Raised SystemExit ''1'')\<close>
  \<open>run (cannot_convert schema_error :: unit \<Rightarrow> unit result) (Some (predicts [0])) () = Inl schema_error\<close>
  by (simp_all add: conversions_of_the_examples run_body_def models_of_the_examples tolist_def
      texts_of_the_examples)

text \<open>
  C2, as the code has it. For an argument that the input schema converts: when
  \<open>model.predict\<close> raises, \<open>run\<close> returns the JSON text of \<open>{"error": str(e)}\<close> if the
  exception is an instance of \<open>Exception\<close>, which is the class the handler names; an
  exception outside that class (\<open>KeyboardInterrupt\<close>, \<open>SystemExit\<close>, \<open>GeneratorExit\<close>)
  leaves \<open>run\<close> as it was raised. Nothing but the text \<open>str(e)\<close> of the exception enters
  the payload. For an argument that the input schema does not convert, the exception of
  the conversion leaves \<open>run\<close>: it is raised before the \<open>try\<close> statement is entered.
\<close>

theorem run_catches_instances_of_Exception:
  "(deserialize raw = Inr data \<and> model_predict model data = Inl e \<longrightarrow>
      run deserialize model raw =
        (if is_Exception (exc_cls e)
         then Inr (PyStr (json_dumps (PyDict [(''error'', PyStr (str e))])))
         else Inl e)) \<and>
   (deserialize raw = Inl e' \<longrightarrow> run deserialize model raw = Inl e')"
  by (simp add: run_converted run_not_converted run_body_def)

theorem run_catches_instances_of_Exception_witness:
  \<open>run (converts_to ()) (Some (raises (Raised ValueError ''bad input''))) () =
     Inr (PyStr ''{"error": "bad input"}'') \<and>
   run (converts_to ()) (Some (raises (Raised GeneratorExit ''stop''))) () =
     Inl (Raised GeneratorExit ''stop'') \<and>
   run (cannot_convert schema_error :: unit \<Rightarrow> unit result) (Some (predicts [0])) () = Inl schema_error\<close>
proof -
  have c: "converts_to () () = (Inr () :: unit result)"
    by (simp add: converts_to_def)
  have n: "(cannot_convert schema_error :: unit \<Rightarrow> unit result) () = Inl schema_error"
    by (simp add: cannot_convert_def)
  show ?thesis
    using run_catches_instances_of_Exception
            [of "converts_to ()" "()" "()" "Some (raises (Raised ValueError ''bad input''))"
                "Raised ValueError ''bad input''" schema_error]
          run_catches_instances_of_Exception
            [of "converts_to ()" "()" "()" "Some (raises (Raised GeneratorExit ''stop''))"
                "Raised GeneratorExit ''stop''" schema_error]
          run_catches_instances_of_Exception
            [of "cannot_convert schema_error :: unit \<Rightarrow> unit result" "()" "()" "Some (predicts [0])"
                schema_error schema_error]
    by (simp add: c n models_of_the_examples texts_of_the_examples)
qed

text \<open>
  C2 as stated fails. When \<open>model.predict\<close> raises \<open>KeyboardInterrupt\<close>, the handler
  \<open>except Exception\<close> does not match and \<open>run\<close> raises it. And when the input schema
  cannot convert the argument, \<open>run\<close> raises the \<open>Exception\<close> of the conversion, an
  instance of the class that the handler names, because the conversion runs outside the
  \<open>try\<close> statement.
\<close>

theorem run_propagates_KeyboardInterrupt:
  "run (converts_to ()) (Some (raises (Raised KeyboardInterrupt []))) () =
     Inl (Raised KeyboardInterrupt []) \<and>
   run (cannot_convert schema_error :: unit \<Rightarrow> unit result) (Some (predicts [0])) () = Inl schema_error \<and>
   is_Exception (exc_cls schema_error)"
  by (simp add: run_def input_schema_def output_schema_def run_body_def model_predict_def
      raises_def converts_to_def cannot_convert_def schema_error_def)

subsection \<open>What the scoring function returns\<close>

text \<open>
  C1, as the code has it. For an argument that the input schema converts: whenever
  \<open>model.predict\<close> returns, \<open>run\<close> returns a \<open>str\<close>, JSON text that decodes to an object
  with the single key \<open>result\<close>, which holds the list of the predicted labels as
  \<open>tolist()\<close> gives it; whenever \<open>model.predict\<close> raises an instance of \<open>Exception\<close>,
  \<open>run\<close> returns JSON text that decodes to an object with the single key \<open>error\<close>, which
  holds \<open>str(e)\<close>; an exception outside \<open>Exception\<close> leaves \<open>run\<close> and nothing is
  returned. For an argument that the input schema does not convert, the exception of the
  conversion leaves \<open>run\<close> and nothing is returned. Whatever \<open>run\<close> returns is a \<open>str\<close>
  whose text decodes to an object with the one key \<open>result\<close> or the one key \<open>error\<close>,
  never both.
\<close>

theorem run_payload_has_one_key:
  "(deserialize raw = Inr data \<and> model_predict model data = Inr preds \<longrightarrow>
      (\<exists>s payload. run deserialize model raw = Inr (PyStr s) \<and> json_loads s = Inr payload \<and>
         payload = PyDict [(''result'', PyList (map PyInt preds))] \<and>
         dict_keys payload = [''result''])) \<and>
   (deserialize raw = Inr data \<and> model_predict model data = Inl e \<and> is_Exception (exc_cls e) \<longrightarrow>
      (\<exists>s payload. run deserialize model raw = Inr (PyStr s) \<and> json_loads s = Inr payload \<and>
         payload = PyDict [(''error'', PyStr (str e))] \<and>
         dict_keys payload = [''error''])) \<and>
   (deserialize raw = Inr data \<and> model_predict model data = Inl e \<and> \<not> is_Exception (exc_cls e) \<longrightarrow>
      run deserialize model raw = Inl e) \<and>
   (deserialize raw = Inl e' \<longrightarrow> run deserialize model raw = Inl e') \<and>
   (\<forall>v. run deserialize model raw = Inr v \<longrightarrow>
      (\<exists>s payload. v = PyStr s \<and> json_loads s = Inr payload \<and>
         (dict_keys payload = [''result''] \<or> dict_keys payload = [''error''])))"
proof (intro conjI impI allI)
  assume "deserialize raw = Inr data \<and> model_predict model data = Inr preds"
  then have "run deserialize model raw =
               Inr (PyStr (json_dumps (PyDict [(''result'', PyList (map PyInt preds))])))"
    by (simp add: run_converted run_body_success)
  then show "\<exists>s payload. run deserialize model raw = Inr (PyStr s) \<and> json_loads s = Inr payload \<and>
               payload = PyDict [(''result'', PyList (map PyInt preds))] \<and>
               dict_keys payload = [''result'']"
    by (simp add: json_loads_result)
next
  assume "deserialize raw = Inr data \<and> model_predict model data = Inl e \<and> is_Exception (exc_cls e)"
  then have "run deserialize model raw = Inr (PyStr (json_dumps (PyDict [(''error'', PyStr (str e))])))"
    by (simp add: run_converted run_body_caught)
  then show "\<exists>s payload. run deserialize model raw = Inr (PyStr s) \<and> json_loads s = Inr payload \<and>
               payload = PyDict [(''error'', PyStr (str e))] \<and>
               dict_keys payload = [''error'']"
    by (simp add: json_loads_error)
next
  assume "deserialize raw = Inr data \<and> model_predict model data = Inl e \<and> \<not> is_Exception (exc_cls e)"
  then show "run deserialize model raw = Inl e"
    by (simp add: run_converted run_body_uncaught)
next
  assume "deserialize raw = Inl e'"
  then show "run deserialize model raw = Inl e'"
    by (rule run_not_converted)
next
  fix v
  assume "run deserialize model raw = Inr v"
  then have "(\<exists>preds. v = PyStr (json_dumps (PyDict [(''result'', PyList (map PyInt preds))]))) \<or>
             (\<exists>m. v = PyStr (json_dumps (PyDict [(''error'', PyStr m)])))"
    by (rule run_returns_payload)
  then show "\<exists>s payload. v = PyStr s \<and> json_loads s = Inr payload \<and>
               (dict_keys payload = [''result''] \<or> dict_keys payload = [''error''])"
  proof (elim disjE exE)
    fix preds'
    assume "v = PyStr (json_dumps (PyDict [(''result'', PyList (map PyInt preds'))]))"
    then show ?thesis by (simp add: json_loads_result)
  next
    fix m
    assume "v = PyStr (json_dumps (PyDict [(''error'', PyStr m)]))"
    then show ?thesis by (simp add: json_loads_error)
  qed
qed

theorem run_payload_has_one_key_witness:
  \<open>run (converts_to ()) (Some (predicts [1, 0])) () = Inr (PyStr ''{"result": [1, 0]}'') \<and>
   json_loads ''{"result": [1, 0]}'' = Inr (PyDict [(''result'', PyList [PyInt 1, PyInt 0])]) \<and>
   run (converts_to ()) (Some (raises (Raised ValueError ''bad input''))) () =
     Inr (PyStr ''{"error": "bad input"}'') \<and>
   json_loads ''{"error": "bad input"}'' = Inr (PyDict [(''error'', PyStr ''bad input'')]) \<and>
   run (converts_to ()) (Some (raises (Raised SystemExit ''1''))) () = Inl (Raised SystemExit ''1'') \<and>
   run (cannot_convert schema_error :: unit \<Rightarrow> unit result) (Some (predicts [0])) () = Inl schema_error\<close>
proof -
  have c: "converts_to () () = (Inr () :: unit result)"
    by (simp add: converts_to_def)
  have n: "(cannot_convert schema_error :: unit \<Rightarrow> unit result) () = Inl schema_error"
    by (simp add: cannot_convert_def)
  show ?thesis
    using run_payload_has_one_key
            [of "converts_to ()" "()" "()" "Some (predicts [1, 0])" "[1, 0]"
                "Raised ValueError ''bad input''" schema_error]
          run_payload_has_one_key
            [of "converts_to ()" "()" "()" "Some (raises (Raised ValueError ''bad input''))" "[]"
                "Raised ValueError ''bad input''" schema_error]
          run_payload_has_one_key
            [of "converts_to ()" "()" "()" "Some (raises (Raised SystemExit ''1''))" "[]"
                "Raised SystemExit ''1''" schema_error]
          run_payload_has_one_key
            [of "cannot_convert schema_error :: unit \<Rightarrow> unit result" "()" "()" "Some (predicts [0])" "[]"
                schema_error schema_error]
    by (simp add: c n models_of_the_examples runs_of_the_examples)
qed

text \<open>
  C1 as stated fails: for an input whose predicted label is 0, what \<open>run\<close> returns
  decodes to \<open>{"result": [0]}\<close>, where \<open>result\<close> is a list and not the single integer
  0 or 1 of the specification, and the returned value itself is a \<open>str\<close>, not an object;
  for an input on which \<open>model.predict\<close> raises \<open>SystemExit\<close>, \<open>run\<close> returns nothing;
  and for an input that the input schema cannot convert, \<open>run\<close> returns nothing either.
\<close>

theorem run_result_is_a_list_not_an_integer:
  \<open>run (converts_to ()) (Some (predicts [0])) () = Inr (PyStr ''{"result": [0]}'') \<and>
   json_loads ''{"result": [0]}'' = Inr (PyDict [(''result'', PyList [PyInt 0])]) \<and>
   \<not> claimed_scoring_payload (PyDict [(''result'', PyList [PyInt 0])]) \<and>
   \<not> claimed_scoring_payload (PyStr ''{"result": [0]}'') \<and>
   run (converts_to ()) (Some (raises (Raised SystemExit ''1''))) () = Inl (Raised SystemExit ''1'') \<and>
   run (cannot_convert schema_error :: unit \<Rightarrow> unit result) (Some (predicts [0])) () = Inl schema_error\<close>
proof -
  have "json_loads (json_dumps (PyDict [(''result'', PyList (map PyInt [0]))])) =
          Inr (PyDict [(''result'', PyList (map PyInt [0]))])"
    by (rule json_loads_result)
  then show ?thesis
    by (simp add: texts_of_the_examples runs_of_the_examples)
qed

lemma hd_json_dumps_PyDict: "hd (json_dumps (PyDict kvs)) = CHR ''{''"
  by (simp add: json_dumps_def)

lemma hd_json_dumps_PyStr: "hd (json_dumps (PyStr s)) = CHR 0x22"
  by (simp add: json_dumps_def quoted_def)

lemma json_loads_json_dumps_PyStr: "json_loads (json_dumps (PyStr s)) = Inr (PyStr s)"
  by (rule json_loads_json_dumps) simp

text \<open>
  C8. In the success branch and in the error branch alike \<open>run\<close> returns the value of
  \<open>json.dumps\<close>: a \<open>str\<close> that holds the text of a JSON object, never a dict. Encoding
  the returned value as JSON once more, as a caller that serialises the reply does,
  gives a JSON string literal that decodes to that text, not to the object. The value
  under \<open>result\<close> is the list that \<open>result.tolist()\<close> produces. The two branches are
  those of the decorated function once the input schema has converted its argument,
  and of the function under the decorators for every argument; whatever the decorated
  function returns, for any argument, is such a \<open>str\<close>.
\<close>

theorem run_returns_dumped_string:
  "(model_predict model data = Inr result \<longrightarrow>
      run_body model data = Inr (PyStr (json_dumps (PyDict [(''result'', tolist result)]))) \<and>
      tolist result = PyList (map PyInt result)) \<and>
   (model_predict model data = Inl e \<and> is_Exception (exc_cls e) \<longrightarrow>
      run_body model data = Inr (PyStr (json_dumps (PyDict [(''error'', PyStr (str e))])))) \<and>
   (deserialize raw = Inr data \<longrightarrow> run deserialize model raw = run_body model data) \<and>
   (\<forall>v. run deserialize model raw = Inr v \<longrightarrow>
      (\<exists>s. v = PyStr s \<and> hd s = CHR ''{'' \<and> hd (json_dumps v) = CHR 0x22 \<and>
           json_loads (json_dumps v) = Inr (PyStr s)))"
proof (intro conjI impI allI)
  assume "model_predict model data = Inr result"
  then show "run_body model data = Inr (PyStr (json_dumps (PyDict [(''result'', tolist result)])))"
    by (simp add: run_body_def)
next
  show "tolist result = PyList (map PyInt result)"
    by (simp add: tolist_def)
next
  assume "model_predict model data = Inl e \<and> is_Exception (exc_cls e)"
  then show "run_body model data = Inr (PyStr (json_dumps (PyDict [(''error'', PyStr (str e))])))"
    by (simp add: run_body_caught)
next
  assume "deserialize raw = Inr data"
  then show "run deserialize model raw = run_body model data"
    by (rule run_converted)
next
  fix v
  assume "run deserialize model raw = Inr v"
  then have "\<exists>kvs. v = PyStr (json_dumps (PyDict kvs))"
    by (rule run_returns_str)
  then obtain kvs where v: "v = PyStr (json_dumps (PyDict kvs))" ..
  have "v = PyStr (json_dumps (PyDict kvs)) \<and> hd (json_dumps (PyDict kvs)) = CHR ''{'' \<and>
        hd (json_dumps v) = CHR 0x22 \<and>
        json_loads (json_dumps v) = Inr (PyStr (json_dumps (PyDict kvs)))"
    unfolding v
    by (simp only: hd_json_dumps_PyDict hd_json_dumps_PyStr json_loads_json_dumps_PyStr simp_thms)
  then show "\<exists>s. v = PyStr s \<and> hd s = CHR ''{'' \<and> hd (json_dumps v) = CHR 0x22 \<and>
            json_loads (json_dumps v) = Inr (PyStr s)"
    by (rule exI)
qed

theorem run_returns_dumped_string_witness:
  \<open>run (converts_to ()) (Some (predicts [0])) () = Inr (PyStr ''{"result": [0]}'') \<and>
   run (converts_to ()) (None :: (unit \<Rightarrow> int list result) option) () =
     Inr (PyStr ''{"error": "name 'model' is not defined"}'') \<and>
   hd (json_dumps (PyStr ''{"result": [0]}'')) = CHR 0x22 \<and>
   json_loads (json_dumps (PyStr ''{"result": [0]}'')) = Inr (PyStr ''{"result": [0]}'')\<close>
proof -
  have c: "converts_to () () = (Inr () :: unit result)"
    by (simp add: converts_to_def)
  have b: "is_Exception (exc_cls (Raised NameError ''name 'model' is not defined''))"
    by simp
  note first = run_returns_dumped_string
    [of "Some (predicts [0])" "()" "[0]" "Raised NameError ''name 'model' is not defined''"
        "converts_to ()" "()"]
  note second = run_returns_dumped_string
    [of "None :: (unit \<Rightarrow> int list result) option" "()" "[]"
        "Raised NameError ''name 'model' is not defined''" "converts_to ()" "()"]
  have r1: \<open>run (converts_to ()) (Some (predicts [0])) () = Inr (PyStr ''{"result": [0]}'')\<close>
    using first c by (simp add: models_of_the_examples tolist_def texts_of_the_examples)
  have r2: \<open>run (converts_to ()) (None :: (unit \<Rightarrow> int list result) option) () =
              Inr (PyStr ''{"error": "name 'model' is not defined"}'')\<close>
    using second c b by (simp add: models_of_the_examples texts_of_the_examples)
  from first r1 have
    \<open>hd (json_dumps (PyStr ''{"result": [0]}'')) = CHR 0x22 \<and>
     json_loads (json_dumps (PyStr ''{"result": [0]}'')) = Inr (PyStr ''{"result": [0]}'')\<close>
    by auto
  with r1 r2 show ?thesis by simp
qed

section \<open>The request to the service\<close>

lemma sample_columns:
  "columns_dict sample =
     PyDict
      [(''Age'', PyDict [(''0'', PyInt 41)]),
       (''BusinessTravel'', PyDict [(''0'', PyStr ''Travel_Rarely'')]),
       (''DailyRate'', PyDict [(''0'', PyInt 1102)]),
       (''Department'', PyDict [(''0'', PyStr ''Sales'')]),
       (''DistanceFromHome'', PyDict [(''0'', PyInt 1)]),
       (''Education'', PyDict [(''0'', PyInt 2)]),
       (''EducationField'', PyDict [(''0'', PyStr ''Life Sciences'')]),
       (''EnvironmentSatisfaction'', PyDict [(''0'', PyInt 2)]),
       (''Gender'', PyDict [(''0'', PyStr ''Female'')]),
       (''HourlyRate'', PyDict [(''0'', PyInt 94)]),
       (''JobInvolvement'', PyDict [(''0'', PyInt 3)]),
       (''JobLevel'', PyDict [(''0'', PyInt 2)]),
       (''JobRole'', PyDict [(''0'', PyStr ''Sales Executive'')]),
       (''JobSatisfaction'', PyDict [(''0'', PyInt 4)]),
       (''MaritalStatus'', PyDict [(''0'', PyStr ''Single'')]),
       (''MonthlyIncome'', PyDict [(''0'', PyInt 5993)]),
       (''MonthlyRate'', PyDict [(''0'', PyInt 19479)]),
       (''NumCompaniesWorked'', PyDict [(''0'', PyInt 8)]),
       (''OverTime'', PyDict [(''0'', PyInt 0)]),
       (''PercentSalaryHike'', PyDict [(''0'', PyInt 11)]),
       (''PerformanceRating'', PyDict [(''0'', PyInt 3)]),
       (''RelationshipSatisfaction'', PyDict [(''0'', PyInt 1)]),
       (''StockOptionLevel'', PyDict [(''0'', PyInt 0)]),
       (''TotalWorkingYears'', PyDict [(''0'', PyInt 8)]),
       (''TrainingTimesLastYear'', PyDict [(''0'', PyInt 0)]),
       (''WorkLifeBalance'', PyDict [(''0'', PyInt 1)]),
       (''YearsAtCompany'', PyDict [(''0'', PyInt 6)]),
       (''YearsInCurrentRole'', PyDict [(''0'', PyInt 4)]),
       (''YearsSinceLastPromotion'', PyDict [(''0'', PyInt 0)]),
       (''YearsWithCurrManager'', PyDict [(''0'', PyInt 5)])]"
  by (simp add: columns_dict_def sample_def DataFrame_of_record_def sample_record_def cell_json_def dec_int_def)

lemma sample_to_json: "DataFrame_to_json sample = Inr (ujson_dumps (columns_dict sample))"
  by (simp add: DataFrame_to_json_def sample_def DataFrame_of_record_def sample_record_def labels_def)

lemma sample_loaded: "and_then (DataFrame_to_json sample) json_loads = Inr (columns_dict sample)"
  using to_json_then_loads [OF sample_to_json] by (simp add: sample_to_json and_then_Inr)

lemma wf_json_data: "wf_json (PyDict [(''data'', columns_dict sample)])"
  using wf_json_columns_dict [of sample]
  by (simp add: sample_def DataFrame_of_record_def sample_record_def labels_def)

lemma sample_request_value:
  "sample_request access_token scoring_uri =
     Inr \<lparr>http_method = ''POST'', url = scoring_uri,
          headers = [(''Content-Type'', ''application/json''),
                     (''Authorization'', ''Bearer '' @ access_token)],
          body = json_dumps (PyDict [(''data'', columns_dict sample)])\<rparr>"
proof -
  have loaded: "json_loads (ujson_dumps (columns_dict sample)) = Inr (columns_dict sample)"
    using to_json_then_loads [OF sample_to_json] .
  show ?thesis
    unfolding sample_request_def sample_to_json and_then_Inr loaded requests_post_def ..
qed

text \<open>
  C7, as the code has it. The request that the notebook builds for the scoring endpoint
  is a POST to the service's scoring address; the headers it passes are exactly
  \<open>Content-Type: application/json\<close> and \<open>Authorization: Bearer\<close> followed by the token
  that \<open>get_token\<close> returned; the body is the JSON text of an object with the single key
  \<open>data\<close>, which holds the sample table in the column orientation that \<open>to_json\<close> uses
  by default: an object from each column label to an object from the row label to the
  cell.
\<close>

theorem sample_request_is_post_of_columns:
  "sample_request access_token scoring_uri =
     Inr \<lparr>http_method = ''POST'', url = scoring_uri,
          headers = [(''Content-Type'', ''application/json''),
                     (''Authorization'', ''Bearer '' @ access_token)],
          body = json_dumps (PyDict [(''data'', columns_dict sample)])\<rparr> \<and>
   consume_service (Inr (access_token, refresh_after)) scoring_uri =
     sample_request access_token scoring_uri \<and>
   json_loads (json_dumps (PyDict [(''data'', columns_dict sample)])) =
     Inr (PyDict [(''data'', columns_dict sample)]) \<and>
   columns_dict sample =
     PyDict (map (\<lambda>(c, x). (c, PyDict [(''0'', cell_json x)])) sample_record)"
proof (intro conjI)
  show "sample_request access_token scoring_uri =
     Inr \<lparr>http_method = ''POST'', url = scoring_uri,
          headers = [(''Content-Type'', ''application/json''),
                     (''Authorization'', ''Bearer '' @ access_token)],
          body = json_dumps (PyDict [(''data'', columns_dict sample)])\<rparr>"
    by (rule sample_request_value)
  show "consume_service (Inr (access_token, refresh_after)) scoring_uri =
          sample_request access_token scoring_uri"
    by (simp add: consume_service_def and_then_Inr)
  show "json_loads (json_dumps (PyDict [(''data'', columns_dict sample)])) =
          Inr (PyDict [(''data'', columns_dict sample)])"
    by (rule json_loads_json_dumps [OF wf_json_data])
  show "columns_dict sample =
          PyDict (map (\<lambda>(c, x). (c, PyDict [(''0'', cell_json x)])) sample_record)"
    by (simp add: columns_dict_def sample_def DataFrame_of_record_def case_prod_unfold comp_def dec_int_def)
qed

text \<open>
  C7 as stated fails: what the body holds under \<open>data\<close> is keyed by column label first
  (\<open>data["Age"]\<close> is \<open>{"0": 41}\<close>); it is neither the list of row records nor the
  object keyed by row label, the two row-wise orientations of a table.
\<close>

theorem sample_body_is_not_row_oriented:
  "request_data (sample_request ''token'' ''https://service/score'') = Inr (columns_dict sample) \<and>
   columns_dict sample \<noteq> row_oriented_records sample \<and>
   columns_dict sample \<noteq> row_oriented_index sample \<and>
   getitem_key (columns_dict sample) ''Age'' = Inr (PyDict [(''0'', PyInt 41)]) \<and>
   getitem_key (row_oriented_index sample) ''Age'' = Inl (Raised KeyError [CHR 0x27, CHR ''A'', CHR ''g'', CHR ''e'', CHR 0x27])"
proof (intro conjI)
  have req: "sample_request ''token'' ''https://service/score'' =
     Inr \<lparr>http_method = ''POST'', url = ''https://service/score'',
          headers = [(''Content-Type'', ''application/json''),
                     (''Authorization'', ''Bearer '' @ ''token'')],
          body = json_dumps (PyDict [(''data'', columns_dict sample)])\<rparr>"
    by (rule sample_request_value)
  have loads: "json_loads (json_dumps (PyDict [(''data'', columns_dict sample)])) =
     Inr (PyDict [(''data'', columns_dict sample)])"
    by (rule json_loads_json_dumps [OF wf_json_data])
  show "request_data (sample_request ''token'' ''https://service/score'') = Inr (columns_dict sample)"
    unfolding request_data_def req and_then_Inr
    by (simp add: loads and_then_Inr getitem_key_def)
  show "columns_dict sample \<noteq> row_oriented_records sample"
    by (simp add: columns_dict_def row_oriented_records_def)
  have idx: "row_oriented_index sample = PyDict [(''0'', row_dict sample 0)]"
    by (simp add: row_oriented_index_def sample_def DataFrame_of_record_def dec_int_def)
  show "columns_dict sample \<noteq> row_oriented_index sample"
    unfolding idx sample_columns by simp
  show "getitem_key (columns_dict sample) ''Age'' = Inr (PyDict [(''0'', PyInt 41)])"
    unfolding sample_columns by (simp add: getitem_key_def)
  show "getitem_key (row_oriented_index sample) ''Age'' = Inl (Raised KeyError [CHR 0x27, CHR ''A'', CHR ''g'', CHR ''e'', CHR 0x27])"
    unfolding idx by (simp add: getitem_key_def)
qed

lemma sample_body_text: "json_dumps (PyDict [(''data'', columns_dict sample)]) = sample_body"
  unfolding sample_columns sample_body_def by (simp add: encoder_defs)

theorem sample_request_is_post_of_columns_witness:
  "sample_request ''token'' ''https://service/score'' =
     Inr \<lparr>http_method = ''POST'', url = ''https://service/score'',
          headers = [(''Content-Type'', ''application/json''),
                     (''Authorization'', ''Bearer token'')],
          body = sample_body\<rparr>"
  using sample_request_is_post_of_columns [of "''token''" "''https://service/score''" "()"]
  by (simp add: sample_body_text)

section \<open>Dropping columns\<close>

lemma DataFrame_drop_after_drops:
  assumes "l \<in> set (labels df)" and "l \<notin> A"
  shows "DataFrame_drop l (df\<lparr>columns := filter (\<lambda>(c, s). c \<notin> A) (columns df)\<rparr>) =
           Inr (df\<lparr>columns := filter (\<lambda>(c, s). c \<notin> insert l A) (columns df)\<rparr>)"
proof -
  let ?d = "df\<lparr>columns := filter (\<lambda>(c, s). c \<notin> A) (columns df)\<rparr>"
  have "l \<in> set (labels ?d)"
    using assms by (auto simp: labels_def)
  then have "DataFrame_drop l ?d = Inr (?d\<lparr>columns := filter (\<lambda>(c, s). c \<noteq> l) (columns ?d)\<rparr>)"
    by (simp add: DataFrame_drop_def)
  moreover have "filter (\<lambda>(c, s). c \<noteq> l) (filter (\<lambda>(c, s). c \<notin> A) (columns df)) =
                 filter (\<lambda>(c, s). c \<notin> insert l A) (columns df)"
    by (induction "columns df") (auto simp: case_prod_unfold intro: filter_cong)
  ultimately show ?thesis by simp
qed

text \<open>
  C5. On a table that has the columns EmployeeCount, EmployeeNumber, Over18 and
  StandardHours, the four drops succeed, and the table they leave is the input with
  exactly the columns of these four labels filtered out: the row labels, the order of
  the remaining columns and every remaining column's dtype and cells (in row order) are
  those of the input.
\<close>

theorem drops_remove_exactly_the_four:
  assumes "set dropped_labels \<subseteq> set (labels attritionData)"
  shows "attritionData_drops attritionData =
           Inr (attritionData\<lparr>columns :=
                  filter (\<lambda>(c, s). c \<notin> set dropped_labels) (columns attritionData)\<rparr>)"
proof -
  let ?cs = "columns attritionData"
  have in1: "''EmployeeCount'' \<in> set (labels attritionData)"
    and in2: "''EmployeeNumber'' \<in> set (labels attritionData)"
    and in3: "''Over18'' \<in> set (labels attritionData)"
    and in4: "''StandardHours'' \<in> set (labels attritionData)"
    using assms by (simp_all add: dropped_labels_def)
  have d1: "DataFrame_drop ''EmployeeCount'' (attritionData\<lparr>columns := filter (\<lambda>(c, s). c \<notin> {}) ?cs\<rparr>) =
              Inr (attritionData\<lparr>columns := filter (\<lambda>(c, s). c \<notin> {''EmployeeCount''}) ?cs\<rparr>)"
    by (rule DataFrame_drop_after_drops [OF in1]) simp
  have d2: "DataFrame_drop ''EmployeeNumber'' (attritionData\<lparr>columns := filter (\<lambda>(c, s). c \<notin> {''EmployeeCount''}) ?cs\<rparr>) =
              Inr (attritionData\<lparr>columns := filter (\<lambda>(c, s). c \<notin> {''EmployeeNumber'', ''EmployeeCount''}) ?cs\<rparr>)"
    by (rule DataFrame_drop_after_drops [OF in2]) simp
  have d3: "DataFrame_drop ''Over18'' (attritionData\<lparr>columns := filter (\<lambda>(c, s). c \<notin> {''EmployeeNumber'', ''EmployeeCount''}) ?cs\<rparr>) =
              Inr (attritionData\<lparr>columns := filter (\<lambda>(c, s). c \<notin> {''Over18'', ''EmployeeNumber'', ''EmployeeCount''}) ?cs\<rparr>)"
    by (rule DataFrame_drop_after_drops [OF in3]) simp
  have d4: "DataFrame_drop ''StandardHours'' (attritionData\<lparr>columns := filter (\<lambda>(c, s). c \<notin> {''Over18'', ''EmployeeNumber'', ''EmployeeCount''}) ?cs\<rparr>) =
              Inr (attritionData\<lparr>columns := filter (\<lambda>(c, s). c \<notin> {''StandardHours'', ''Over18'', ''EmployeeNumber'', ''EmployeeCount''}) ?cs\<rparr>)"
    by (rule DataFrame_drop_after_drops [OF in4]) simp
  have start: "attritionData = attritionData\<lparr>columns := filter (\<lambda>(c, s). c \<notin> {}) ?cs\<rparr>"
    by simp
  have all: "{''StandardHours'', ''Over18'', ''EmployeeNumber'', ''EmployeeCount''} = set dropped_labels"
    by (auto simp: dropped_labels_def)
  have "attritionData_drops (attritionData\<lparr>columns := filter (\<lambda>(c, s). c \<notin> {}) ?cs\<rparr>) =
          Inr (attritionData\<lparr>columns := filter (\<lambda>(c, s). c \<notin> set dropped_labels) ?cs\<rparr>)"
    unfolding attritionData_drops_def d1 and_then_Inr d2 d3 d4 all ..
  with start show ?thesis by simp
qed

theorem drops_remove_exactly_the_four_witness:
  "set dropped_labels \<subseteq> set (labels hr_table) \<and>
   attritionData_drops hr_table =
     Inr \<lparr>index = [0, 1],
          columns =
            [(''Age'', \<lparr>dtype = Int64, cells = [IntCell 41, IntCell 49]\<rparr>),
             (''Attrition'', \<lparr>dtype = Object, cells = [StrCell ''Yes'', StrCell ''No'']\<rparr>),
             (''Gender'', \<lparr>dtype = Object, cells = [StrCell ''Female'', StrCell ''Male'']\<rparr>),
             (''DailyRate'', \<lparr>dtype = Int64, cells = [IntCell 1102, IntCell 279]\<rparr>)]\<rparr>"
proof -
  have h: "set dropped_labels \<subseteq> set (labels hr_table)"
    by (simp add: dropped_labels_def labels_def hr_table_def)
  show ?thesis
    using h drops_remove_exactly_the_four [OF h]
    by (simp add: dropped_labels_def hr_table_def)
qed

section \<open>Categorical and numerical columns\<close>

lemma categorical_loop_filter:
  "categorical_loop cs acc = acc @ map fst (filter (\<lambda>(c, s). dtype s = Object) cs)"
  by (induction cs acc rule: categorical_loop.induct) auto

lemma categorical_filter:
  "categorical X = map fst (filter (\<lambda>(c, s). dtype s = Object) (columns X))"
  by (simp add: categorical_def categorical_loop_filter)

lemma set_categorical_subset: "set (categorical X) \<subseteq> set (labels X)"
  by (auto simp: categorical_filter labels_def)

lemma set_numerical: "set (numerical X) = set (labels X) - set (categorical X)"
  by (auto simp: numerical_def Index_difference_def)






lemma mset_numerical_distinct:
  "distinct (labels X) \<Longrightarrow>
   mset (numerical X) = mset (filter (\<lambda>c. c \<notin> set (categorical X)) (labels X))"
  by (simp add: numerical_def Index_difference_def distinct_remdups_id)

lemma categorical_as_label_filter:
  assumes "distinct (labels X)"
  shows "mset (categorical X) = mset (filter (\<lambda>c. c \<in> set (categorical X)) (labels X))"
proof -
  have "distinct (categorical X)"
    using assms unfolding categorical_filter labels_def by (rule distinct_map_filter)
  moreover have "distinct (filter (\<lambda>c. c \<in> set (categorical X)) (labels X))"
    using assms by simp
  moreover have "set (categorical X) = set (filter (\<lambda>c. c \<in> set (categorical X)) (labels X))"
    using set_categorical_subset [of X] by auto
  ultimately show ?thesis
    using set_eq_iff_mset_eq_distinct by blast
qed

text \<open>
  C6, as the code has it. For every feature table the two lists share no label and
  together hold exactly the labels of the table. When the column labels of the table are
  pairwise distinct, the split is the specification's strict partition: every column is
  listed exactly once.
\<close>

theorem partition_of_distinct_labels:
  "set (categorical X) \<inter> set (numerical X) = {} \<and>
   set (categorical X) \<union> set (numerical X) = set (labels X) \<and>
   (distinct (labels X) \<longrightarrow> strict_partition X)"
proof (intro conjI impI)
  show disj: "set (categorical X) \<inter> set (numerical X) = {}"
    by (auto simp: set_numerical)
  show "set (categorical X) \<union> set (numerical X) = set (labels X)"
    using set_categorical_subset [of X] by (auto simp: set_numerical)
  assume d: "distinct (labels X)"
  have "mset (categorical X @ numerical X) =
          mset (filter (\<lambda>c. c \<in> set (categorical X)) (labels X)) +
          mset (filter (\<lambda>c. c \<notin> set (categorical X)) (labels X))"
    using categorical_as_label_filter [OF d] mset_numerical_distinct [OF d] by simp
  also have "\<dots> = mset (labels X)"
    by (simp add: multiset_partition [symmetric])
  finally show "strict_partition X"
    using disj by (simp add: strict_partition_def)
qed

theorem partition_of_distinct_labels_witness:
  "distinct (labels hr_features) \<and> strict_partition hr_features \<and>
   categorical hr_features = [''Gender''] \<and> numerical hr_features = [''Age'', ''DailyRate'']"
proof -
  have d: "distinct (labels hr_features)"
    by (simp add: labels_def hr_features_def)
  have "categorical hr_features = [''Gender'']"
    by (simp add: categorical_def hr_features_def)
  moreover have "numerical hr_features = [''Age'', ''DailyRate'']"
    by (simp add: numerical_def Index_difference_def categorical_def labels_def hr_features_def)
  ultimately show ?thesis
    using d partition_of_distinct_labels [of hr_features] by simp
qed

text \<open>
  C6 as stated fails on a table with repeated column labels: of two object columns
  labelled A and two integer columns labelled B, the loop lists A twice and the
  difference lists B once, so the four columns are not listed once each.
\<close>

theorem repeated_labels_not_partitioned:
  "categorical repeated_labels_table = [''A'', ''A''] \<and>
   numerical repeated_labels_table = [''B''] \<and>
   labels repeated_labels_table = [''A'', ''A'', ''B'', ''B''] \<and>
   \<not> strict_partition repeated_labels_table"
  by (simp add: strict_partition_def numerical_def Index_difference_def categorical_def labels_def
      repeated_labels_table_def)




section \<open>The local explanation\<close>

lemma rows_head_rows_one:
  assumes "1 \<le> length (index df)"
  shows "rows (head_rows (Suc 0) df) = [row_at df 0]"
proof -
  have "length (take (Suc 0) (index df)) = Suc 0"
    using assms by (cases "index df") simp_all
  then have "rows (head_rows (Suc 0) df) = [row_at (head_rows (Suc 0) df) 0]"
    by (simp add: rows_def head_rows_def)
  moreover have "row_at (head_rows (Suc 0) df) 0 = row_at df 0"
    using assms by (cases "index df") (auto simp: row_at_def head_rows_def case_prod_unfold comp_def)
  ultimately show ?thesis by simp
qed

text \<open>
  C10. With \<open>instance_num = 1\<close> and a test table of at least two rows, the table given
  to \<open>explain_local\<close> holds exactly the row at position 0, while \<open>prediction_value\<close> is
  the pipeline's decision for the row at position 1. The two are different rows of the
  table (they differ in their row label whenever the row labels are distinct).
\<close>

theorem explained_row_is_not_the_predicted_row:
  assumes "2 \<le> length (index x_test)"
  shows "rows (explained_rows x_test) = [row_at x_test 0] \<and>
         prediction_value classify x_test = Inr (classify (row_at x_test 1)) \<and>
         (distinct (index x_test) \<longrightarrow> row_at x_test 0 \<noteq> row_at x_test 1)"
proof (intro conjI impI)
  show "rows (explained_rows x_test) = [row_at x_test 0]"
    using assms by (simp add: explained_rows_def instance_num_def rows_head_rows_one)
  show "prediction_value classify x_test = Inr (classify (row_at x_test 1))"
    using assms
    by (simp add: prediction_value_def array_getitem_def clf_predict_def rows_def instance_num_def)
  assume "distinct (index x_test)"
  moreover have "0 < length (index x_test)" and "1 < length (index x_test)"
    using assms by linarith+
  ultimately have "index x_test ! 0 \<noteq> index x_test ! 1"
    using nth_eq_iff_index_eq [of "index x_test" 0 1] by simp
  then show "row_at x_test 0 \<noteq> row_at x_test 1"
    by (simp add: row_at_def)
qed

theorem explained_row_is_not_the_predicted_row_witness:
  "2 \<le> length (index hr_features) \<and> distinct (index hr_features) \<and>
   rows (explained_rows hr_features) =
     [(0, [(''Age'', IntCell 41), (''Gender'', StrCell ''Female''), (''DailyRate'', IntCell 1102)])] \<and>
   row_at hr_features 1 =
     (1, [(''Age'', IntCell 49), (''Gender'', StrCell ''Male''), (''DailyRate'', IntCell 279)]) \<and>
   prediction_value label_of_age hr_features = Inr 1 \<and>
   label_of_age (row_at hr_features 0) = 0"
proof -
  have h: "2 \<le> length (index hr_features)"
    by (simp add: hr_features_def)
  have r0: "row_at hr_features 0 =
              (0, [(''Age'', IntCell 41), (''Gender'', StrCell ''Female''), (''DailyRate'', IntCell 1102)])"
    by (simp add: row_at_def hr_features_def)
  have r1: "row_at hr_features (Suc 0) =
              (1, [(''Age'', IntCell 49), (''Gender'', StrCell ''Male''), (''DailyRate'', IntCell 279)])"
    by (simp add: row_at_def hr_features_def)
  have d: "distinct (index hr_features)"
    by (simp add: hr_features_def)
  show ?thesis
    using h d explained_row_is_not_the_predicted_row [OF h, of label_of_age]
    by (simp add: r0 r1 label_of_age_def)
qed

section \<open>Provisioning\<close>

text \<open>
  C3. In each of the two provisioning cells the only handler is
  \<open>except ComputeTargetException\<close> around the lookup. An exception of any other class
  from the lookup leaves the cell as it was raised, after the lookup alone. A
  \<open>ComputeTargetException\<close> from the lookup is caught and the cell goes on to create the
  cluster; what \<open>ComputeTarget.create\<close> or \<open>wait_for_completion\<close> then raise, of whatever
  class, leaves the cell uncaught.
\<close>

theorem only_ComputeTargetException_is_caught:
  "(ComputeTarget sdk ws cpu_cluster_name = Inl e \<and> \<not> is_ComputeTargetException (exc_cls e) \<longrightarrow>
      cpu_cluster_cell sdk ws = ([Looked_up cpu_cluster_name], Inl e)) \<and>
   (ComputeTarget sdk ws cpu_cluster_name = Inl e \<and> is_ComputeTargetException (exc_cls e) \<longrightarrow>
      attempted_creation (cpu_cluster_cell sdk ws) \<and>
      (\<forall>e1. ComputeTarget_create sdk ws cpu_cluster_name (compute_config ws) = Inl e1 \<longrightarrow>
         snd (cpu_cluster_cell sdk ws) = Inl e1) \<and>
      (\<forall>c e2. ComputeTarget_create sdk ws cpu_cluster_name (compute_config ws) = Inr c \<and>
         wait_for_completion sdk c = Inl e2 \<longrightarrow> snd (cpu_cluster_cell sdk ws) = Inl e2)) \<and>
   (ComputeTarget sdk ws aks_cluster_name = Inl e' \<and> \<not> is_ComputeTargetException (exc_cls e') \<longrightarrow>
      aks_target_cell sdk ws = ([Looked_up aks_cluster_name], Inl e')) \<and>
   (ComputeTarget sdk ws aks_cluster_name = Inl e' \<and> is_ComputeTargetException (exc_cls e') \<longrightarrow>
      attempted_creation (aks_target_cell sdk ws) \<and>
      (\<forall>e1. ComputeTarget_create sdk ws aks_cluster_name (aks_config ws) = Inl e1 \<longrightarrow>
         snd (aks_target_cell sdk ws) = Inl e1))"
  by (auto simp: cpu_cluster_cell_def aks_target_cell_def attempted_creation_def split: sum.splits)

theorem only_ComputeTargetException_is_caught_witness:
  "cpu_cluster_cell (scripted_plane (Inl auth_failure) (Inr (''c'', compute_config demo_ws)) (Inr ())) demo_ws =
     ([Looked_up cpu_cluster_name], Inl auth_failure) \<and>
   aks_target_cell (scripted_plane (Inl auth_failure) (Inr (''c'', aks_config demo_ws)) (Inr ())) demo_ws =
     ([Looked_up aks_cluster_name], Inl auth_failure) \<and>
   attempted_creation (cpu_cluster_cell (scripted_plane (Inl not_found) (Inl quota_failure) (Inr ())) demo_ws) \<and>
   snd (cpu_cluster_cell (scripted_plane (Inl not_found) (Inl quota_failure) (Inr ())) demo_ws) = Inl quota_failure \<and>
   snd (cpu_cluster_cell (scripted_plane (Inl not_found) (Inr (''c'', compute_config demo_ws)) (Inl provisioning_failure)) demo_ws) =
     Inl provisioning_failure \<and>
   attempted_creation (aks_target_cell (scripted_plane (Inl not_found) (Inl quota_failure) (Inr ())) demo_ws) \<and>
   snd (aks_target_cell (scripted_plane (Inl not_found) (Inl quota_failure) (Inr ())) demo_ws) = Inl quota_failure"
  using only_ComputeTargetException_is_caught
          [of "scripted_plane (Inl auth_failure) (Inr (''c'', compute_config demo_ws)) (Inr ())" demo_ws auth_failure auth_failure]
        only_ComputeTargetException_is_caught
          [of "scripted_plane (Inl auth_failure) (Inr (''c'', aks_config demo_ws)) (Inr ())" demo_ws auth_failure auth_failure]
        only_ComputeTargetException_is_caught
          [of "scripted_plane (Inl not_found) (Inl quota_failure) (Inr ())" demo_ws not_found not_found]
        only_ComputeTargetException_is_caught
          [of "scripted_plane (Inl not_found) (Inr (''c'', compute_config demo_ws)) (Inl provisioning_failure)" demo_ws not_found not_found]
  by (simp add: scripted_plane_def auth_failure_def not_found_def)

lemma first_run_cpu:
  "cpu_cluster_cell (plane []) demo_ws =
     ([Looked_up cpu_cluster_name, Printed ''Creating new cluster with name vnetcluster'',
       Created cpu_cluster_name (compute_config demo_ws), Waited],
      Inr (cpu_cluster_name, compute_config demo_ws))"
  by (simp add: cpu_cluster_cell_def plane_def cpu_cluster_name_def)

lemma first_run_aks:
  "aks_target_cell (plane []) demo_ws =
     ([Looked_up aks_cluster_name, Printed ''Creating new aks cluster'',
       Created aks_cluster_name (aks_config demo_ws)],
      Inr (aks_cluster_name, aks_config demo_ws))"
  by (simp add: aks_target_cell_def plane_def)

text \<open>
  C4. For the training cluster and for the inference cluster alike: when the lookup of
  the cluster's name returns the existing compute target, the cell binds that very
  object, prints that it found it, raises nothing, and makes no call to create a
  cluster. So a second run of a cell, against the control plane that holds what the
  first run created, returns what the first run bound.
\<close>

theorem existing_cluster_is_returned:
  "(ComputeTarget sdk ws cpu_cluster_name = Inr c \<longrightarrow>
      cpu_cluster_cell sdk ws =
        ([Looked_up cpu_cluster_name,
          Printed ''Found existing cluster with name vnetcluster''], Inr c) \<and>
      \<not> attempted_creation (cpu_cluster_cell sdk ws)) \<and>
   (ComputeTarget sdk ws aks_cluster_name = Inr a \<longrightarrow>
      aks_target_cell sdk ws =
        ([Looked_up aks_cluster_name, Printed ''Found existing aks cluster''], Inr a) \<and>
      \<not> attempted_creation (aks_target_cell sdk ws))"
  by (simp add: cpu_cluster_cell_def aks_target_cell_def attempted_creation_def cpu_cluster_name_def)

theorem existing_cluster_is_returned_witness:
  "cpu_cluster_cell (plane (created_targets (fst (cpu_cluster_cell (plane []) demo_ws)))) demo_ws =
     ([Looked_up cpu_cluster_name, Printed ''Found existing cluster with name vnetcluster''],
      snd (cpu_cluster_cell (plane []) demo_ws)) \<and>
   aks_target_cell (plane (created_targets (fst (aks_target_cell (plane []) demo_ws)))) demo_ws =
     ([Looked_up aks_cluster_name, Printed ''Found existing aks cluster''],
      snd (aks_target_cell (plane []) demo_ws))"
proof -
  have a: "ComputeTarget (plane (created_targets (fst (cpu_cluster_cell (plane []) demo_ws)))) demo_ws cpu_cluster_name =
             Inr (cpu_cluster_name, compute_config demo_ws)"
    unfolding first_run_cpu by (simp add: plane_def)
  have b: "ComputeTarget (plane (created_targets (fst (aks_target_cell (plane []) demo_ws)))) demo_ws aks_cluster_name =
             Inr (aks_cluster_name, aks_config demo_ws)"
    unfolding first_run_aks by (simp add: plane_def)
  show ?thesis
    using a b
      existing_cluster_is_returned [of "plane (created_targets (fst (cpu_cluster_cell (plane []) demo_ws)))" demo_ws
         "(cpu_cluster_name, compute_config demo_ws)" "(aks_cluster_name, aks_config demo_ws)"]
      existing_cluster_is_returned [of "plane (created_targets (fst (aks_target_cell (plane []) demo_ws)))" demo_ws
         "(cpu_cluster_name, compute_config demo_ws)" "(aks_cluster_name, aks_config demo_ws)"]
    by (simp add: first_run_cpu first_run_aks)
qed

end
